theory Spec2Isabelle
  imports Complex_Main "HOL-Library.Multiset"
begin

section \<open>JavaScript values\<close>

text \<open>
  A JavaScript number is an IEEE double. The model keeps the three non-finite values
  apart and idealises a finite double as the rational it denotes: the rounding of
  arithmetic is not modelled, overflow to an infinity is (see \<open>mkNum\<close>).
\<close>

datatype jsnum = Fin rat | NaN | PosInf | NegInf

text \<open>\<^verbatim>\<open>Number.isFinite(n)\<close> for a value that is a number.\<close>

fun isFinite :: "jsnum \<Rightarrow> bool" where
  "isFinite (Fin r) = True"
| "isFinite _ = False"

text \<open>
  The value a decimal or integer literal denotes, as a double: a magnitude of at least
  \<open>2^1024 - 2^970\<close> rounds to an infinity.
\<close>

definition mkNum :: "rat \<Rightarrow> jsnum" where
  "mkNum v = (if 2 ^ 1024 - 2 ^ 970 \<le> \<bar>v\<bar> then (if 0 < v then PosInf else NegInf) else Fin v)"

fun negNum :: "jsnum \<Rightarrow> jsnum" where
  "negNum (Fin r) = Fin (- r)"
| "negNum NaN = NaN"
| "negNum PosInf = NegInf"
| "negNum NegInf = PosInf"

text \<open>
  What \<^verbatim>\<open>JSON.parse\<close> returns. An object is the list of its own properties, each key
  once; \<open>None\<close> of type \<open>json option\<close> is \<^verbatim>\<open>undefined\<close>. A string is the list
  of its code units, each a \<open>char\<close> read as the Latin-1 code point U+0000 to U+00FF;
  text beyond Latin-1 is outside the model.
\<close>

datatype json =
    JNull
  | JBool bool
  | JNum jsnum
  | JStr string
  | JArr "json list"
  | JObj "(string \<times> json) list"

datatype error = TypeError

text \<open>
  \<^verbatim>\<open>v.k\<close> for a value \<open>v\<close> that is neither null nor undefined, and a key \<open>k\<close> that no
  prototype defines (every key the program reads is such a key): the own property of an
  object, undefined for an array, a string, a number and a boolean.
\<close>

fun get :: "json \<Rightarrow> string \<Rightarrow> json option" where
  "get (JObj kvs) k = map_of kvs k"
| "get _ k = None"

text \<open>\<^verbatim>\<open>v?.k\<close>: undefined when \<open>v\<close> is null or undefined.\<close>

fun getOpt :: "json option \<Rightarrow> string \<Rightarrow> json option" where
  "getOpt None k = None"
| "getOpt (Some JNull) k = None"
| "getOpt (Some v) k = get v k"

text \<open>ToBoolean, the test of \<^verbatim>\<open>if(v)\<close>, \<^verbatim>\<open>v && ...\<close> and \<^verbatim>\<open>v || ...\<close>.\<close>

fun truthy :: "json option \<Rightarrow> bool" where
  "truthy None = False"
| "truthy (Some JNull) = False"
| "truthy (Some (JBool b)) = b"
| "truthy (Some (JNum n)) = (case n of Fin r \<Rightarrow> r \<noteq> 0 | NaN \<Rightarrow> False | _ \<Rightarrow> True)"
| "truthy (Some (JStr s)) = (s \<noteq> [])"
| "truthy (Some (JArr xs)) = True"
| "truthy (Some (JObj kvs)) = True"

text \<open>\<^verbatim>\<open>v || {}\<close>: the empty object when \<open>v\<close> is falsy.\<close>

definition orEmpty :: "json option \<Rightarrow> json" where
  "orEmpty v = (if truthy v then the v else JObj [])"

text \<open>\<^verbatim>\<open>v != null\<close>: neither null nor undefined.\<close>

fun notNullish :: "json option \<Rightarrow> bool" where
  "notNullish None = False"
| "notNullish (Some JNull) = False"
| "notNullish (Some v) = True"

fun isArray :: "json option \<Rightarrow> bool" where
  "isArray (Some (JArr xs)) = True"
| "isArray _ = False"

subsection \<open>Strings to numbers\<close>

text \<open>
  White space and line terminators (\<^verbatim>\<open>\s\<close> of a regular expression, and what the
  conversion of a string to a number trims), within Latin-1: tab, line feed, vertical
  tab, form feed, carriage return, space, no-break space.
\<close>

definition isSpace :: "char \<Rightarrow> bool" where
  "isSpace c = (of_char c \<in> {9, 10, 11, 12, 13, 32, 160 :: nat})"

definition isDigit :: "char \<Rightarrow> bool" where
  "isDigit c = (48 \<le> (of_char c :: nat) \<and> (of_char c :: nat) \<le> 57)"

definition digitVal :: "char \<Rightarrow> nat" where
  "digitVal c = of_char c - 48"

text \<open>The value of a hexadecimal digit, \<open>None\<close> for any other character.\<close>

definition hexVal :: "char \<Rightarrow> nat option" where
  "hexVal c = (let n = (of_char c :: nat) in
     if 48 \<le> n \<and> n \<le> 57 then Some (n - 48)
     else if 97 \<le> n \<and> n \<le> 102 then Some (n - 87)
     else if 65 \<le> n \<and> n \<le> 70 then Some (n - 55)
     else None)"

text \<open>The number a string of digits denotes in base \<open>b\<close>, most significant first.\<close>

definition digitsVal :: "nat \<Rightarrow> nat list \<Rightarrow> nat" where
  "digitsVal b ds = foldl (\<lambda>acc d. acc * b + d) 0 ds"

definition decVal :: "string \<Rightarrow> nat" where
  "decVal s = digitsVal 10 (map digitVal s)"

definition trim :: "string \<Rightarrow> string" where
  "trim s = rev (dropWhile isSpace (rev (dropWhile isSpace s)))"

text \<open>
  A literal in base \<open>b\<close> after its \<^verbatim>\<open>0x\<close>, \<^verbatim>\<open>0o\<close> or \<^verbatim>\<open>0b\<close>: one digit at least, every
  character a digit of the base.
\<close>

definition nonDecimal :: "nat \<Rightarrow> string \<Rightarrow> jsnum" where
  "nonDecimal b s =
     (if s \<noteq> [] \<and> (\<forall>c \<in> set s. case hexVal c of None \<Rightarrow> False | Some d \<Rightarrow> d < b)
      then mkNum (of_nat (digitsVal b (map (\<lambda>c. the (hexVal c)) s)))
      else NaN)"

text \<open>
  The exponent part of a decimal literal: nothing (exponent 0), or \<^verbatim>\<open>e\<close> or \<^verbatim>\<open>E\<close>, an
  optional sign and one digit at least. \<open>None\<close> when the text is neither.
\<close>

definition exponentPart :: "string \<Rightarrow> int option" where
  "exponentPart s =
     (case s of
        [] \<Rightarrow> Some 0
      | c # r \<Rightarrow>
          if c = CHR ''e'' \<or> c = CHR ''E'' then
            (let (neg, ds) =
               (case r of
                  [] \<Rightarrow> (False, [])
                | d # r' \<Rightarrow> if d = CHR ''-'' then (True, r') else if d = CHR ''+'' then (False, r') else (False, r))
             in if ds \<noteq> [] \<and> (\<forall>d \<in> set ds. isDigit d)
                then Some (if neg then - int (decVal ds) else int (decVal ds))
                else None)
          else None)"

text \<open>
  An unsigned decimal literal of a string: \<^verbatim>\<open>Infinity\<close>, or digits, an optional point
  and fraction, an optional exponent, with a digit before or after the point.
\<close>

definition unsignedDecimal :: "string \<Rightarrow> jsnum" where
  "unsignedDecimal s =
     (if s = ''Infinity'' then PosInf
      else
        let ip = takeWhile isDigit s;
            r1 = dropWhile isDigit s;
            dot = (r1 \<noteq> [] \<and> hd r1 = CHR ''.'');
            fp = (if dot then takeWhile isDigit (tl r1) else []);
            r2 = (if dot then dropWhile isDigit (tl r1) else r1)
        in if ip = [] \<and> fp = [] then NaN
           else (case exponentPart r2 of
                   None \<Rightarrow> NaN
                 | Some e \<Rightarrow>
                     mkNum ((of_nat (decVal ip) + of_nat (decVal fp) / 10 ^ length fp)
                            * (if 0 \<le> e then 10 ^ nat e else 1 / 10 ^ nat (- e)))))"

text \<open>StringToNumber: what \<^verbatim>\<open>Number(s)\<close> is for a string \<open>s\<close>.\<close>

definition stringToNumber :: "string \<Rightarrow> jsnum" where
  "stringToNumber s =
     (let t = trim s in
      case t of
        [] \<Rightarrow> Fin 0
      | c # r \<Rightarrow>
          if c = CHR ''0'' \<and> r \<noteq> [] \<and> (hd r = CHR ''x'' \<or> hd r = CHR ''X'') then nonDecimal 16 (tl r)
          else if c = CHR ''0'' \<and> r \<noteq> [] \<and> (hd r = CHR ''o'' \<or> hd r = CHR ''O'') then nonDecimal 8 (tl r)
          else if c = CHR ''0'' \<and> r \<noteq> [] \<and> (hd r = CHR ''b'' \<or> hd r = CHR ''B'') then nonDecimal 2 (tl r)
          else if c = CHR ''+'' then unsignedDecimal r
          else if c = CHR ''-'' then negNum (unsignedDecimal r)
          else unsignedDecimal t)"

subsection \<open>Values to numbers and to strings\<close>

text \<open>
  The conversion of a value to a string raises TypeError for an object with an own
  property \<^verbatim>\<open>toString\<close> (its value is data, not a function, and the inherited
  \<^verbatim>\<open>valueOf\<close> returns the object), and for an array with such an element: an array is
  joined from the strings of its elements, null giving the empty string.
\<close>

fun toStringFails :: "json \<Rightarrow> bool" where
  "toStringFails (JObj kvs) = (map_of kvs ''toString'' \<noteq> None)"
| "toStringFails (JArr xs) = (\<exists>x \<in> set xs. toStringFails x)"
| "toStringFails _ = False"

text \<open>
  The number of the string an array is joined to. An empty array gives the empty string,
  which is 0. An array of one element gives that element's string: the empty string for
  null, a number's own value for a number, \<^verbatim>\<open>[object Object]\<close> for an object, which is
  no number. Two elements or more are joined with a comma, which no number contains.
\<close>

fun arrayToNumber :: "json list \<Rightarrow> jsnum" where
  "arrayToNumber [] = Fin 0"
| "arrayToNumber [JNull] = Fin 0"
| "arrayToNumber [JBool b] = NaN"
| "arrayToNumber [JNum n] = n"
| "arrayToNumber [JStr s] = stringToNumber s"
| "arrayToNumber [JArr ys] = arrayToNumber ys"
| "arrayToNumber [JObj kvs] = NaN"
| "arrayToNumber (x # y # zs) = NaN"

text \<open>\<^verbatim>\<open>Number(v)\<close>.\<close>

fun Number :: "json option \<Rightarrow> error + jsnum" where
  "Number None = Inr NaN"
| "Number (Some JNull) = Inr (Fin 0)"
| "Number (Some (JBool b)) = Inr (Fin (if b then 1 else 0))"
| "Number (Some (JNum n)) = Inr n"
| "Number (Some (JStr s)) = Inr (stringToNumber s)"
| "Number (Some (JArr xs)) = (if toStringFails (JArr xs) then Inl TypeError else Inr (arrayToNumber xs))"
| "Number (Some (JObj kvs)) = (if toStringFails (JObj kvs) then Inl TypeError else Inr NaN)"

text \<open>
  \<^verbatim>\<open>String(v)\<close> and a template literal's \<^verbatim>\<open>${v}\<close>, where only the failure matters to
  the program's result: the text itself goes to a display string.
\<close>

definition String_ok :: "json option \<Rightarrow> bool" where
  "String_ok v = (case v of None \<Rightarrow> True | Some j \<Rightarrow> \<not> toStringFails j)"

section \<open>Coordinates\<close>

record LatLng =
  lat :: rat
  lng :: rat

text \<open>
  \<^verbatim>\<open>latE7ToNum(v)\<close>: \<open>Inr None\<close> is the \<^verbatim>\<open>null\<close> it returns, \<open>Inl TypeError\<close> the
  exception of \<^verbatim>\<open>Number(v)\<close>.
\<close>

definition latE7ToNum :: "json option \<Rightarrow> error + rat option" where
  "latE7ToNum v =
     (case Number v of
        Inl e \<Rightarrow> Inl e
      | Inr n \<Rightarrow> (case n of Fin r \<Rightarrow> Inr (Some (r * (1 / 10 ^ 7))) | _ \<Rightarrow> Inr None))"


subsection \<open>Coordinate text\<close>

text \<open>
  The degree glyph of the character class \<^verbatim>\<open>[<degree>\s]\<close> (U+00B0; the source file
  shows it re-encoded, in the class and in the example of the comment above
  \<^verbatim>\<open>parseLatLngString\<close> alike).
\<close>

definition degree :: char where
  "degree = CHR 0xB0"

text \<open>\<^verbatim>\<open>s.split(",")\<close>: one part more than there are commas.\<close>

fun split_comma :: "string \<Rightarrow> string list" where
  "split_comma [] = [[]]"
| "split_comma (c # cs) =
     (if c = CHR '','' then [] # split_comma cs
      else (case split_comma cs of [] \<Rightarrow> [[c]] | p # ps \<Rightarrow> (c # p) # ps))"

text \<open>
  The regular expression \<^verbatim>\<open>/(-?\d+(?:\.\d+)?).*(-?\d+(?:\.\d+)?)/\<close> as a backtracking
  matcher. Each part maps the text at its position to the list of its matches, the
  matched text with the text left, in the order the matcher tries them: a greedy
  quantifier tries the longest first. The first element of the list of a whole pattern
  is the match found.
\<close>

type_synonym matches = "(string \<times> string) list"

text \<open>\<^verbatim>\<open>-?\<close>\<close>

definition optMinus :: "string \<Rightarrow> matches" where
  "optMinus s =
     (case s of
        [] \<Rightarrow> [([], [])]
      | c # r \<Rightarrow> if c = CHR ''-'' then [([c], r), ([], s)] else [([], s)])"

text \<open>
  A greedy star over one character class, \<^verbatim>\<open>[...]*\<close>: it takes one more character of
  the class first and stops only when what follows fails.
\<close>

fun star :: "(char \<Rightarrow> bool) \<Rightarrow> string \<Rightarrow> matches" where
  "star P [] = [([], [])]"
| "star P (c # r) =
     (if P c then map (\<lambda>(m, t). (c # m, t)) (star P r) @ [([], c # r)] else [([], c # r)])"

text \<open>\<^verbatim>\<open>\d+\<close>: one digit, then \<^verbatim>\<open>\d*\<close>.\<close>

definition digits1 :: "string \<Rightarrow> matches" where
  "digits1 s =
     (case s of
        [] \<Rightarrow> []
      | c # r \<Rightarrow> if isDigit c then map (\<lambda>(m, t). (c # m, t)) (star isDigit r) else [])"

text \<open>\<^verbatim>\<open>(?:\.\d+)?\<close>\<close>

definition optFraction :: "string \<Rightarrow> matches" where
  "optFraction s =
     (case s of
        [] \<Rightarrow> [([], [])]
      | c # r \<Rightarrow>
          if c = CHR ''.'' then map (\<lambda>(d, r'). (c # d, r')) (digits1 r) @ [([], s)]
          else [([], s)])"

text \<open>The group \<^verbatim>\<open>(-?\d+(?:\.\d+)?)\<close>\<close>

definition floatGroup :: "string \<Rightarrow> matches" where
  "floatGroup s =
     concat (map (\<lambda>(m, r1).
       concat (map (\<lambda>(d, r2).
         map (\<lambda>(f, r3). (m @ d @ f, r3)) (optFraction r2)) (digits1 r1))) (optMinus s))"

text \<open>
  \<^verbatim>\<open>.*\<close>: the dot matches every character but a line terminator (line feed and
  carriage return, within Latin-1).
\<close>

definition isLineTerminator :: "char \<Rightarrow> bool" where
  "isLineTerminator c = (of_char c \<in> {10, 13 :: nat})"

definition dotStar :: "string \<Rightarrow> matches" where
  "dotStar s = star (\<lambda>c. \<not> isLineTerminator c) s"

text \<open>The whole pattern at one position: the two groups of each match.\<close>

definition twoFloatsAt :: "string \<Rightarrow> (string \<times> string) list" where
  "twoFloatsAt s =
     concat (map (\<lambda>(g1, r1).
       concat (map (\<lambda>(a, r2).
         map (\<lambda>(g2, r3). (g1, g2)) (floatGroup r2)) (dotStar r1))) (floatGroup s))"

text \<open>\<^verbatim>\<open>cleaned.match(...)\<close>: the first match at the leftmost position that has one.\<close>

fun matchTwoFloats :: "string \<Rightarrow> (string \<times> string) option" where
  "matchTwoFloats s =
     (case twoFloatsAt s of
        m # ms \<Rightarrow> Some m
      | [] \<Rightarrow> (case s of [] \<Rightarrow> None | c # r \<Rightarrow> matchTwoFloats r))"

text \<open>
  \<^verbatim>\<open>parseLatLngString(s)\<close>. \<open>None\<close> is the \<^verbatim>\<open>null\<close> it returns. The conversion of a
  string to a number raises nothing.
\<close>

definition finitePair :: "jsnum \<Rightarrow> jsnum \<Rightarrow> LatLng option" where
  "finitePair a b =
     (case (a, b) of (Fin x, Fin y) \<Rightarrow> Some \<lparr>lat = x, lng = y\<rparr> | _ \<Rightarrow> None)"

definition parseLatLngString :: "json option \<Rightarrow> LatLng option" where
  "parseLatLngString v =
     (case v of
        Some (JStr s) \<Rightarrow>
          if s = [] then None
          else
            let cleaned = filter (\<lambda>c. \<not> (c = degree \<or> isSpace c)) s;
                parts = split_comma cleaned;
                viaComma =
                  (if 2 \<le> length parts
                   then finitePair (stringToNumber (parts ! 0)) (stringToNumber (parts ! 1))
                   else None)
            in (case viaComma of
                  Some p \<Rightarrow> Some p
                | None \<Rightarrow>
                    (case matchTwoFloats cleaned of
                       Some (g1, g2) \<Rightarrow> finitePair (stringToNumber g1) (stringToNumber g2)
                     | None \<Rightarrow> None))
      | _ \<Rightarrow> None)"


section \<open>Dates\<close>

text \<open>
  A Date object holds a time value: milliseconds since the epoch, an integer of magnitude
  at most \<open>maxTime\<close>, or NaN (\<open>InvalidDate\<close>).
\<close>

datatype date = Date int | InvalidDate

definition msPerDay :: int where
  "msPerDay = 86400000"

definition maxTime :: int where
  "maxTime = 8640000000000000"

text \<open>\<^verbatim>\<open>d.getTime()\<close>; \<open>None\<close> is NaN.\<close>

fun getTime :: "date \<Rightarrow> int option" where
  "getTime (Date t) = Some t"
| "getTime InvalidDate = None"

text \<open>TimeClip of an integral time value.\<close>

definition clipTime :: "int \<Rightarrow> date" where
  "clipTime t = (if maxTime < \<bar>t\<bar> then InvalidDate else Date t)"

text \<open>\<^verbatim>\<open>new Date(n)\<close> for a number \<open>n\<close>: TimeClip, which truncates towards zero.\<close>

definition newDateOfNumber :: "jsnum \<Rightarrow> date" where
  "newDateOfNumber n =
     (case n of
        Fin r \<Rightarrow> if of_int maxTime < \<bar>r\<bar> then InvalidDate
                 else Date (if 0 \<le> r then \<lfloor>r\<rfloor> else \<lceil>r\<rceil>)
      | _ \<Rightarrow> InvalidDate)"

text \<open>
  \<^verbatim>\<open>new Date(s)\<close> for a string \<open>s\<close>. \<^verbatim>\<open>Date.parse\<close> is the parameter \<open>dp\<close>: the
  language fixes it for the ISO format only and leaves other texts to the
  implementation. \<open>None\<close> is NaN.
\<close>

definition newDateOfString :: "(string \<Rightarrow> int option) \<Rightarrow> string \<Rightarrow> date" where
  "newDateOfString dp s = (case dp s of None \<Rightarrow> InvalidDate | Some t \<Rightarrow> clipTime t)"

subsection \<open>The calendar\<close>

text \<open>
  The day number of the first day of year \<open>y\<close>, the number of days of a year, and the
  year a day number falls in: the largest \<open>y\<close> with \<open>DayFromYear y \<le> d\<close>, computed
  from an estimate that is off by one at most (\<open>YearFromDay_bounds\<close>).
\<close>

definition DayFromYear :: "int \<Rightarrow> int" where
  "DayFromYear y = 365 * (y - 1970) + (y - 1969) div 4 - (y - 1901) div 100 + (y - 1601) div 400"

definition DaysInYear :: "int \<Rightarrow> int" where
  "DaysInYear y =
     (if y mod 4 \<noteq> 0 then 365 else if y mod 100 \<noteq> 0 then 366
      else if y mod 400 \<noteq> 0 then 365 else 366)"

definition YearFromDay :: "int \<Rightarrow> int" where
  "YearFromDay d =
     (let y = 1970 + (400 * d) div 146097 in
      if d < DayFromYear y then y - 1 else if DayFromYear (y + 1) \<le> d then y + 1 else y)"

definition InLeapYear :: "int \<Rightarrow> bool" where
  "InLeapYear d = (DaysInYear (YearFromDay d) = 366)"

definition DayWithinYear :: "int \<Rightarrow> int" where
  "DayWithinYear d = d - DayFromYear (YearFromDay d)"

text \<open>The day within its year of the first day of month \<open>m\<close> (0 to 11).\<close>

definition monthStart :: "bool \<Rightarrow> int \<Rightarrow> int" where
  "monthStart leap m =
     (if m = 0 then 0 else if m = 1 then 31
      else (if leap then 1 else 0) +
        (if m = 2 then 59 else if m = 3 then 90 else if m = 4 then 120
         else if m = 5 then 151 else if m = 6 then 181 else if m = 7 then 212
         else if m = 8 then 243 else if m = 9 then 273 else if m = 10 then 304 else 334))"

definition MonthFromDay :: "int \<Rightarrow> int" where
  "MonthFromDay d =
     (let w = DayWithinYear d; l = (if InLeapYear d then 1 else 0) in
      if w < 31 then 0 else if w < 59 + l then 1 else if w < 90 + l then 2
      else if w < 120 + l then 3 else if w < 151 + l then 4 else if w < 181 + l then 5
      else if w < 212 + l then 6 else if w < 243 + l then 7 else if w < 273 + l then 8
      else if w < 304 + l then 9 else if w < 334 + l then 10 else 11)"

definition DateFromDay :: "int \<Rightarrow> int" where
  "DateFromDay d = DayWithinYear d - monthStart (InLeapYear d) (MonthFromDay d) + 1"

text \<open>MakeDay: the day number of the date \<open>dt\<close> of month \<open>m\<close> of year \<open>y\<close>, any integers.\<close>

definition MakeDay :: "int \<Rightarrow> int \<Rightarrow> int \<Rightarrow> int" where
  "MakeDay y m dt =
     (let ym = y + m div 12; mn = m mod 12 in
      DayFromYear ym + monthStart (DaysInYear ym = 366) mn + dt - 1)"

subsection \<open>Local time\<close>

text \<open>
  The local time zone is the parameter \<open>tz\<close>, its offset from UTC in milliseconds, the
  same at every time: a zone with daylight saving time is outside the model.
\<close>

definition LocalDay :: "int \<Rightarrow> int \<Rightarrow> int" where
  "LocalDay tz t = (t + tz) div msPerDay"

text \<open>\<^verbatim>\<open>d.getFullYear()\<close>, \<^verbatim>\<open>d.getMonth()\<close>, \<^verbatim>\<open>d.getDate()\<close>; \<open>None\<close> is NaN.\<close>

fun getFullYear :: "int \<Rightarrow> date \<Rightarrow> int option" where
  "getFullYear tz (Date t) = Some (YearFromDay (LocalDay tz t))"
| "getFullYear tz InvalidDate = None"

fun getMonth :: "int \<Rightarrow> date \<Rightarrow> int option" where
  "getMonth tz (Date t) = Some (MonthFromDay (LocalDay tz t))"
| "getMonth tz InvalidDate = None"

fun getDate :: "int \<Rightarrow> date \<Rightarrow> int option" where
  "getDate tz (Date t) = Some (DateFromDay (LocalDay tz t))"
| "getDate tz InvalidDate = None"

text \<open>
  \<^verbatim>\<open>new Date(y, m, d)\<close> for integral or NaN arguments: local midnight of that day; a
  year from 0 to 99 stands for 1900 to 1999.
\<close>

fun newDate :: "int \<Rightarrow> int option \<Rightarrow> int option \<Rightarrow> int option \<Rightarrow> date" where
  "newDate tz (Some y) (Some m) (Some d) =
     clipTime (MakeDay (if 0 \<le> y \<and> y \<le> 99 then 1900 + y else y) m d * msPerDay - tz)"
| "newDate tz _ _ _ = InvalidDate"

text \<open>\<^verbatim>\<open>dayKey(d)\<close> and \<^verbatim>\<open>startOfDay(d)\<close>.\<close>

definition dayKey :: "int \<Rightarrow> date \<Rightarrow> int option" where
  "dayKey tz d =
     (case (getFullYear tz d, getMonth tz d, getDate tz d) of
        (Some y, Some m0, Some dd) \<Rightarrow> Some (y * 10000 + (m0 + 1) * 100 + dd)
      | _ \<Rightarrow> None)"


text \<open>The key \<^verbatim>\<open>dayKey\<close> packs for a day number: year, month (1 to 12) and date.\<close>

definition keyOfDay :: "int \<Rightarrow> int" where
  "keyOfDay d = YearFromDay d * 10000 + (MonthFromDay d + 1) * 100 + DateFromDay d"

section \<open>Timestamps\<close>

text \<open>
  \<^verbatim>\<open>parseDateDual(isoString, msString)\<close>; \<open>None\<close> is the \<^verbatim>\<open>null\<close> it returns. The
  conversion of a string or of a number to a number raises nothing.
\<close>

definition parseDateDual :: "(string \<Rightarrow> int option) \<Rightarrow> json option \<Rightarrow> json option \<Rightarrow> date option" where
  "parseDateDual dp isoString msString =
     (let viaIso =
        (case isoString of
           Some (JStr s) \<Rightarrow> (case newDateOfString dp s of Date t \<Rightarrow> Some (Date t) | InvalidDate \<Rightarrow> None)
         | _ \<Rightarrow> None)
      in case viaIso of
           Some d \<Rightarrow> Some d
         | None \<Rightarrow>
             (let ms = (case msString of
                          Some (JStr s) \<Rightarrow> Some (stringToNumber s)
                        | Some (JNum n) \<Rightarrow> Some n
                        | _ \<Rightarrow> None)
              in case ms of
                   Some n \<Rightarrow>
                     if isFinite n
                     then (case newDateOfNumber n of Date t \<Rightarrow> Some (Date t) | InvalidDate \<Rightarrow> None)
                     else None
                 | None \<Rightarrow> None))"

section \<open>Items\<close>

datatype ItemKind = activity | visit | rawpoint

text \<open>
  An Item with the fields that carry data: \<open>endTime\<close> is the field \<^verbatim>\<open>end\<close>. The
  display strings \<^verbatim>\<open>title\<close>, \<^verbatim>\<open>subtitle\<close>, \<^verbatim>\<open>emoji\<close> and \<^verbatim>\<open>activityType\<close> are left
  out: nothing branches on them. Where computing one of them can raise (the conversion
  of a field to a string), the parsers below keep the raise.
\<close>

record Item =
  kind :: ItemKind
  start :: date
  endTime :: "date option"
  point :: "LatLng option"
  path :: "LatLng list"
  distanceMeters :: "rat option"

text \<open>Sequencing of computations that can raise.\<close>

definition bindE :: "error + 'a \<Rightarrow> ('a \<Rightarrow> error + 'b) \<Rightarrow> error + 'b" where
  "bindE m f = (case m of Inl e \<Rightarrow> Inl e | Inr x \<Rightarrow> f x)"

text \<open>A statement that only raises or not: \<^verbatim>\<open>String(v)\<close> for a display string.\<close>

definition checkString :: "json option \<Rightarrow> error + unit" where
  "checkString v = (if String_ok v then Inr () else Inl TypeError)"

text \<open>\<^verbatim>\<open>(lat != null && lng != null) ? {lat, lng} : null\<close>\<close>

definition mkLatLng :: "rat option \<Rightarrow> rat option \<Rightarrow> LatLng option" where
  "mkLatLng a b = (case (a, b) of (Some x, Some y) \<Rightarrow> Some \<lparr>lat = x, lng = y\<rparr> | _ \<Rightarrow> None)"

text \<open>The list a \<^verbatim>\<open>push\<close> under \<^verbatim>\<open>if(p)\<close> adds.\<close>

fun pushed :: "'a option \<Rightarrow> 'a list" where
  "pushed None = []"
| "pushed (Some x) = [x]"

text \<open>
  \<^verbatim>\<open>x != null ? Number(x) : null\<close>, then \<^verbatim>\<open>Number.isFinite(n) ? n : null\<close>: the field
  \<^verbatim>\<open>distanceMeters\<close> of an activity.
\<close>

definition distanceOf :: "json option \<Rightarrow> error + rat option" where
  "distanceOf x =
     (if notNullish x
      then bindE (Number x) (\<lambda>n. Inr (case n of Fin r \<Rightarrow> Some r | _ \<Rightarrow> None))
      else Inr None)"

section \<open>The parser of \<^verbatim>\<open>timelineObjects\<close>\<close>

text \<open>The loop over \<^verbatim>\<open>seg.waypointPath?.waypoints\<close>.\<close>

fun waypoints :: "json list \<Rightarrow> error + LatLng list" where
  "waypoints [] = Inr []"
| "waypoints (p # ps) =
     bindE (latE7ToNum (getOpt (Some p) ''latE7'')) (\<lambda>lat.
     bindE (latE7ToNum (getOpt (Some p) ''lngE7'')) (\<lambda>lng.
     bindE (waypoints ps) (\<lambda>rest.
       Inr (pushed (mkLatLng lat lng) @ rest))))"

text \<open>
  The start and the end of a segment or visit \<open>x\<close>: \<^verbatim>\<open>dur = x.duration || {}\<close>, then
  \<^verbatim>\<open>parseDateDual(dur.startTimestamp, dur.startTimestampMs)\<close>, and the same of the end.
\<close>

definition durationStart :: "(string \<Rightarrow> int option) \<Rightarrow> json \<Rightarrow> date option" where
  "durationStart dp x =
     (let dur = orEmpty (get x ''duration'')
      in parseDateDual dp (get dur ''startTimestamp'') (get dur ''startTimestampMs''))"

definition durationEnd :: "(string \<Rightarrow> int option) \<Rightarrow> json \<Rightarrow> date option" where
  "durationEnd dp x =
     (let dur = orEmpty (get x ''duration'')
      in parseDateDual dp (get dur ''endTimestamp'') (get dur ''endTimestampMs''))"

text \<open>The branch \<^verbatim>\<open>if(obj && obj.activitySegment)\<close>, for the truthy segment \<open>seg\<close>.\<close>

definition activitySegment :: "(string \<Rightarrow> int option) \<Rightarrow> json \<Rightarrow> error + Item list" where
  "activitySegment dp seg =
     bindE (if truthy (get seg ''activityType'') then checkString (get seg ''activityType'') else Inr ()) (\<lambda>u.
     bindE (distanceOf (get seg ''distance'')) (\<lambda>dist.
     bindE (case getOpt (get seg ''waypointPath'') ''waypoints'' of
              Some (JArr wps) \<Rightarrow> waypoints wps
            | _ \<Rightarrow> Inr []) (\<lambda>path0.
     bindE (latE7ToNum (getOpt (get seg ''startLocation'') ''latitudeE7'')) (\<lambda>sLat.
     bindE (latE7ToNum (getOpt (get seg ''startLocation'') ''longitudeE7'')) (\<lambda>sLng.
     bindE (latE7ToNum (getOpt (get seg ''endLocation'') ''latitudeE7'')) (\<lambda>eLat.
     bindE (latE7ToNum (getOpt (get seg ''endLocation'') ''longitudeE7'')) (\<lambda>eLng.
       let path1 = (if path0 = [] then pushed (mkLatLng sLat sLng) @ pushed (mkLatLng eLat eLng)
                    else path0)
       in Inr (case durationStart dp seg of
                 None \<Rightarrow> []
               | Some s \<Rightarrow>
                   [\<lparr>kind = activity, start = s, endTime = durationEnd dp seg, point = None,
                     path = path1, distanceMeters = dist\<rparr>]))))))))"

text \<open>The branch \<^verbatim>\<open>if(obj && obj.placeVisit)\<close>, for the truthy visit \<open>v\<close>.\<close>

definition placeVisit :: "(string \<Rightarrow> int option) \<Rightarrow> json \<Rightarrow> error + Item list" where
  "placeVisit dp v =
     (let loc = orEmpty (get v ''location'')
      in
      bindE (if truthy (get loc ''name'') then checkString (get loc ''name'') else Inr ()) (\<lambda>u.
      bindE (if truthy (get loc ''address'') then checkString (get loc ''address'') else Inr ()) (\<lambda>u'.
      bindE (latE7ToNum (get loc ''latitudeE7'')) (\<lambda>lat.
      bindE (latE7ToNum (get loc ''longitudeE7'')) (\<lambda>lng.
        Inr (case durationStart dp v of
               None \<Rightarrow> []
             | Some s \<Rightarrow>
                 [\<lparr>kind = visit, start = s, endTime = durationEnd dp v, point = mkLatLng lat lng,
                   path = [], distanceMeters = None\<rparr>]))))))"

text \<open>One pass of the loop body of \<^verbatim>\<open>parseTimelineObjects\<close>: the Items it pushes.\<close>

definition timelineObject :: "(string \<Rightarrow> int option) \<Rightarrow> json \<Rightarrow> error + Item list" where
  "timelineObject dp obj =
     bindE (if truthy (Some obj) \<and> truthy (get obj ''activitySegment'')
            then activitySegment dp (the (get obj ''activitySegment'')) else Inr []) (\<lambda>a.
     bindE (if truthy (Some obj) \<and> truthy (get obj ''placeVisit'')
            then placeVisit dp (the (get obj ''placeVisit'')) else Inr []) (\<lambda>b.
       Inr (a @ b)))"

text \<open>A loop that pushes to \<^verbatim>\<open>items\<close>: an exception of one pass ends it.\<close>

fun forEach :: "('a \<Rightarrow> error + 'b list) \<Rightarrow> 'a list \<Rightarrow> error + 'b list" where
  "forEach f [] = Inr []"
| "forEach f (x # xs) = bindE (f x) (\<lambda>a. bindE (forEach f xs) (\<lambda>b. Inr (a @ b)))"

definition parseTimelineObjects :: "(string \<Rightarrow> int option) \<Rightarrow> json list \<Rightarrow> error + Item list" where
  "parseTimelineObjects dp timelineObjects = forEach (timelineObject dp) timelineObjects"

section \<open>The parser of \<^verbatim>\<open>semanticSegments\<close>\<close>

text \<open>\<^verbatim>\<open>typeof v === "string"\<close>\<close>

fun isString :: "json option \<Rightarrow> bool" where
  "isString (Some (JStr s)) = True"
| "isString _ = False"

text \<open>
  \<^verbatim>\<open>(typeof x === "string") ? new Date(x) : null\<close>, and the test
  \<^verbatim>\<open>d && !isNaN(d.getTime())\<close> of \<open>startOK\<close> and of the field \<^verbatim>\<open>end\<close>.
\<close>

definition dateOfField :: "(string \<Rightarrow> int option) \<Rightarrow> json option \<Rightarrow> date option" where
  "dateOfField dp x = (case x of Some (JStr s) \<Rightarrow> Some (newDateOfString dp s) | _ \<Rightarrow> None)"

fun validDate :: "date option \<Rightarrow> bool" where
  "validDate (Some (Date t)) = True"
| "validDate _ = False"

text \<open>a || b for two values\<close>

definition orElse :: "json option \<Rightarrow> json option \<Rightarrow> json option" where
  "orElse a b = (if truthy a then a else b)"

text \<open>The coordinate text of a visit's candidate \<^verbatim>\<open>top\<close>: \<open>latLngStr\<close> of the source.\<close>

definition visitLatLngStr :: "json \<Rightarrow> json option" where
  "visitLatLngStr topC =
     (let placeLoc = orElse (get topC ''placeLocation'')
                       (orElse (get topC ''placeLocationLatLng'')
                          (getOpt (get topC ''placeLocation'') ''latLng''))
      in if isString (getOpt (get topC ''placeLocation'') ''latLng'')
         then getOpt (get topC ''placeLocation'') ''latLng''
         else if isString (get topC ''placeLocation'') then get topC ''placeLocation''
         else if isString placeLoc then placeLoc
         else None)"

text \<open>
  The branch \<^verbatim>\<open>if(seg.visit)\<close>; \<open>start0\<close> and \<open>end0\<close> are \<^verbatim>\<open>start\<close> and \<^verbatim>\<open>end\<close> of the
  loop body.
\<close>

definition semanticVisit :: "json \<Rightarrow> date \<Rightarrow> date option \<Rightarrow> error + Item list" where
  "semanticVisit seg start0 end0 =
     (let topC = orEmpty (getOpt (get seg ''visit'') ''topCandidate'');
          pt = parseLatLngString (visitLatLngStr topC)
      in
      bindE (if notNullish (getOpt (get seg ''visit'') ''hierarchyLevel'')
             then checkString (getOpt (get seg ''visit'') ''hierarchyLevel'') else Inr ()) (\<lambda>u.
        Inr [\<lparr>kind = visit, start = start0, endTime = (if validDate end0 then end0 else None),
              point = pt, path = [], distanceMeters = None\<rparr>]))"

text \<open>The loop over \<^verbatim>\<open>seg.timelinePath\<close>.\<close>

fun timelinePoints :: "json list \<Rightarrow> LatLng list" where
  "timelinePoints [] = []"
| "timelinePoints (p # ps) =
     pushed (parseLatLngString (getOpt (Some p) ''point'')) @ timelinePoints ps"

text \<open>The path of an activity: the points of the timeline path, and the fallback.\<close>

definition activityPath :: "json \<Rightarrow> LatLng list" where
  "activityPath seg =
     (let startPt = parseLatLngString (getOpt (getOpt (get seg ''activity'') ''start'') ''latLng'');
          endPt = parseLatLngString (getOpt (getOpt (get seg ''activity'') ''end'') ''latLng'');
          path0 = (case get seg ''timelinePath'' of
                     Some (JArr ps) \<Rightarrow> timelinePoints ps
                   | _ \<Rightarrow> [])
      in if path0 = [] then pushed startPt @ pushed endPt else path0)"

text \<open>The branch \<^verbatim>\<open>if(seg.activity)\<close>.\<close>

definition semanticActivity :: "json \<Rightarrow> date \<Rightarrow> date option \<Rightarrow> error + Item list" where
  "semanticActivity seg start0 end0 =
     bindE (distanceOf (getOpt (get seg ''activity'') ''distanceMeters'')) (\<lambda>dist.
       Inr [\<lparr>kind = activity, start = start0, endTime = (if validDate end0 then end0 else None),
             point = None, path = activityPath seg, distanceMeters = dist\<rparr>])"

text \<open>One pass of the loop body of \<^verbatim>\<open>parseSemanticSegments\<close>.\<close>

definition semanticSegment :: "(string \<Rightarrow> int option) \<Rightarrow> json \<Rightarrow> error + Item list" where
  "semanticSegment dp seg =
     (let start = dateOfField dp (getOpt (Some seg) ''startTime'');
          end = dateOfField dp (getOpt (Some seg) ''endTime'')
      in if \<not> validDate start then Inr []
         else if truthy (get seg ''visit'') then semanticVisit seg (the start) end
         else if truthy (get seg ''activity'') then semanticActivity seg (the start) end
         else Inr [])"

definition parseSemanticSegments :: "(string \<Rightarrow> int option) \<Rightarrow> json list \<Rightarrow> error + Item list" where
  "parseSemanticSegments dp semanticSegments = forEach (semanticSegment dp) semanticSegments"

section \<open>The parser of \<^verbatim>\<open>locations\<close>\<close>

text \<open>a ?? b\<close>

definition coalesce :: "json option \<Rightarrow> json option \<Rightarrow> json option" where
  "coalesce a b = (if notNullish a then a else b)"

text \<open>
  The time of a record:
  \<^verbatim>\<open>parseDateDual(null, loc?.timestampMs ?? loc?.timestampMS ?? loc?.timestamp ?? null)\<close>.
\<close>

definition recordTime :: "(string \<Rightarrow> int option) \<Rightarrow> json \<Rightarrow> date option" where
  "recordTime dp loc =
     parseDateDual dp (Some JNull)
       (coalesce (getOpt (Some loc) ''timestampMs'')
         (coalesce (getOpt (Some loc) ''timestampMS'')
           (coalesce (getOpt (Some loc) ''timestamp'') (Some JNull))))"

text \<open>One pass of the loop body of \<^verbatim>\<open>parseRecordsLocations\<close>.\<close>

definition recordsLocation :: "(string \<Rightarrow> int option) \<Rightarrow> json \<Rightarrow> error + Item list" where
  "recordsLocation dp loc =
     (case recordTime dp loc of
        None \<Rightarrow> Inr []
      | Some t \<Rightarrow>
          bindE (latE7ToNum (getOpt (Some loc) ''latitudeE7'')) (\<lambda>lat.
          bindE (latE7ToNum (getOpt (Some loc) ''longitudeE7'')) (\<lambda>lng.
            case mkLatLng lat lng of
              None \<Rightarrow> Inr []
            | Some p \<Rightarrow>
                bindE (checkString (getOpt (Some loc) ''accuracy'')) (\<lambda>u.
                  Inr [\<lparr>kind = rawpoint, start = t, endTime = None, point = Some p,
                        path = [], distanceMeters = None\<rparr>]))))"

definition parseRecordsLocations :: "(string \<Rightarrow> int option) \<Rightarrow> json list \<Rightarrow> error + Item list" where
  "parseRecordsLocations dp locations = forEach (recordsLocation dp) locations"

section \<open>The dispatcher\<close>

datatype Format = TimelineObjects | SemanticSegments | RecordsLocations | Unknown

text \<open>The array a value tested with \<^verbatim>\<open>Array.isArray\<close> is.\<close>

fun elems :: "json option \<Rightarrow> json list" where
  "elems (Some (JArr xs)) = xs"
| "elems _ = []"

text \<open>
  \<^verbatim>\<open>parseAnyGoogleTimeline(json)\<close>: the pair is the object
  \<^verbatim>\<open>{items, detectedFormat}\<close> it returns.
\<close>

definition parseAnyGoogleTimeline :: "(string \<Rightarrow> int option) \<Rightarrow> json \<Rightarrow> error + Item list \<times> Format" where
  "parseAnyGoogleTimeline dp json =
     (if truthy (Some json) \<and> isArray (get json ''timelineObjects'')
      then bindE (parseTimelineObjects dp (elems (get json ''timelineObjects'')))
             (\<lambda>items. Inr (items, TimelineObjects))
      else if truthy (Some json) \<and> isArray (get json ''semanticSegments'')
      then bindE (parseSemanticSegments dp (elems (get json ''semanticSegments'')))
             (\<lambda>items. Inr (items, SemanticSegments))
      else if truthy (Some json) \<and> isArray (get json ''locations'')
      then bindE (parseRecordsLocations dp (elems (get json ''locations'')))
             (\<lambda>items. Inr (items, RecordsLocations))
      else Inr ([], Unknown))"

section \<open>The session state\<close>

text \<open>
  The fields of \<^verbatim>\<open>state\<close> that hold data; the map and its layers belong to the
  rendering. \<open>dayKeySet\<close> is the Set in insertion order.
\<close>

record state =
  items :: "Item list"
  sortedDays :: "date list"
  dayKeySet :: "int option list"
  selectedDay :: "date option"
  detectedFormat :: Format
  monthAnchor :: "date option"

text \<open>The state of the program at its start.\<close>

definition initialState :: state where
  "initialState = \<lparr>items = [], sortedDays = [], dayKeySet = [], selectedDay = None,
     detectedFormat = Unknown, monthAnchor = None\<rparr>"

text \<open>\<^verbatim>\<open>set.add(k)\<close>; NaN is one key.\<close>

definition setAdd :: "'a \<Rightarrow> 'a list \<Rightarrow> 'a list" where
  "setAdd k s = (if k \<in> set s then s else s @ [k])"

text \<open>
  \<^verbatim>\<open>xs.sort((a, b) => key(a) - key(b))\<close>. The sort is stable; \<open>before\<close> says that
  the comparator does not put \<open>b\<close> before \<open>a\<close>, and a difference that is NaN counts as 0.
  With NaN among the keys the comparator is not consistent and the order the
  implementation's; the model takes the order of insertion sort then.
\<close>

fun before :: "int option \<Rightarrow> int option \<Rightarrow> bool" where
  "before (Some a) (Some b) = (a \<le> b)"
| "before _ _ = True"

fun insertBy :: "('a \<Rightarrow> int option) \<Rightarrow> 'a \<Rightarrow> 'a list \<Rightarrow> 'a list" where
  "insertBy key x [] = [x]"
| "insertBy key x (y # ys) = (if before (key x) (key y) then x # y # ys else y # insertBy key x ys)"

definition sortBy :: "('a \<Rightarrow> int option) \<Rightarrow> 'a list \<Rightarrow> 'a list" where
  "sortBy key xs = foldr (insertBy key) xs []"

text \<open>The remainder \<^verbatim>\<open>k % n\<close> of integers: its sign is the sign of \<open>k\<close>.\<close>

definition jsRem :: "int \<Rightarrow> int \<Rightarrow> int" where
  "jsRem k n = sgn k * (\<bar>k\<bar> mod \<bar>n\<bar>)"

text \<open>The Date \<^verbatim>\<open>rebuildDays\<close> makes of a key \<open>k\<close>; NaN gives an invalid Date.\<close>

definition dateOfKey :: "int \<Rightarrow> int option \<Rightarrow> date" where
  "dateOfKey tz k =
     (case k of
        None \<Rightarrow> InvalidDate
      | Some k \<Rightarrow>
          let y = k div 10000;
              m = (jsRem k 10000) div 100 - 1;
              d = jsRem k 100
          in newDate tz (Some y) (Some m) (Some d))"

text \<open>\<^verbatim>\<open>rebuildDays()\<close>\<close>

definition rebuildDays :: "int \<Rightarrow> state \<Rightarrow> state" where
  "rebuildDays tz st =
     (let keySet = foldl (\<lambda>s it. setAdd (dayKey tz (start it)) s) [] (items st);
          keys = sortBy (\<lambda>k. k) keySet;
          days = map (dateOfKey tz) keys
      in st\<lparr>dayKeySet := keySet,
            sortedDays := days,
            monthAnchor := (if days \<noteq> [] then Some (hd days) else None),
            selectedDay := (if days \<noteq> [] then Some (hd days) else None)\<rparr>)"

section \<open>The navigator\<close>

text \<open>\<^verbatim>\<open>xs.findIndex(p)\<close>\<close>

fun findIndex :: "('a \<Rightarrow> bool) \<Rightarrow> 'a list \<Rightarrow> int" where
  "findIndex p [] = - 1"
| "findIndex p (x # xs) = (if p x then 0 else (let i = findIndex p xs in if i < 0 then - 1 else i + 1))"

text \<open>\<^verbatim>\<open>a === b\<close> for two numbers: NaN equals nothing.\<close>

fun strictEq :: "int option \<Rightarrow> int option \<Rightarrow> bool" where
  "strictEq (Some a) (Some b) = (a = b)"
| "strictEq _ _ = False"

definition currentDayIndex :: "int \<Rightarrow> state \<Rightarrow> int" where
  "currentDayIndex tz st =
     (case selectedDay st of
        None \<Rightarrow> - 1
      | Some sel \<Rightarrow> findIndex (\<lambda>d. strictEq (dayKey tz d) (dayKey tz sel)) (sortedDays st))"

text \<open>
  \<^verbatim>\<open>updateNavButtons()\<close> sets the two buttons' \<^verbatim>\<open>disabled\<close>; \<open>hasPrev\<close> and \<open>hasNext\<close>
  are the buttons being enabled.
\<close>

definition prevDisabled :: "int \<Rightarrow> state \<Rightarrow> bool" where
  "prevDisabled tz st = (\<not> (0 < length (sortedDays st)) \<or> currentDayIndex tz st \<le> 0)"

definition nextDisabled :: "int \<Rightarrow> state \<Rightarrow> bool" where
  "nextDisabled tz st =
     (\<not> (0 < length (sortedDays st)) \<or> currentDayIndex tz st < 0
      \<or> currentDayIndex tz st \<ge> int (length (sortedDays st)) - 1)"

definition hasPrev :: "int \<Rightarrow> state \<Rightarrow> bool" where
  "hasPrev tz st = (\<not> prevDisabled tz st)"

definition hasNext :: "int \<Rightarrow> state \<Rightarrow> bool" where
  "hasNext tz st = (\<not> nextDisabled tz st)"

text \<open>\<^verbatim>\<open>goPrev()\<close> and \<^verbatim>\<open>goNext()\<close>; the rendering they start changes no field here.\<close>

definition goPrev :: "int \<Rightarrow> state \<Rightarrow> state" where
  "goPrev tz st =
     (let idx = currentDayIndex tz st in
      if 0 < idx then st\<lparr>selectedDay := Some (sortedDays st ! nat (idx - 1))\<rparr> else st)"

definition goNext :: "int \<Rightarrow> state \<Rightarrow> state" where
  "goNext tz st =
     (let idx = currentDayIndex tz st in
      if 0 \<le> idx \<and> idx < int (length (sortedDays st)) - 1
      then st\<lparr>selectedDay := Some (sortedDays st ! nat (idx + 1))\<rparr> else st)"





section \<open>Loading a file\<close>

text \<open>
  What the user is shown: the toast \<^verbatim>\<open>JSON parse error\<close> with the text of the error,
  the toast \<^verbatim>\<open>No supported data found\<close>, the toast \<^verbatim>\<open>Loaded\<close> with the numbers of
  items and days, or nothing, when an exception leaves \<^verbatim>\<open>onFileSelected\<close>.
\<close>

datatype outcome = JsonParseError string | NoSupportedData | Loaded nat nat | Uncaught error

text \<open>
  \<^verbatim>\<open>onFileSelected(file)\<close> from \<^verbatim>\<open>JSON.parse(text)\<close> on, which belongs to the language:
  the argument is what it does on the file's text, \<open>Inl msg\<close> when it throws the error
  of text \<open>msg\<close>, \<open>Inr json\<close> when it returns the value \<open>json\<close>.
\<close>

definition onFileSelected :: "int \<Rightarrow> (string \<Rightarrow> int option) \<Rightarrow> string + json \<Rightarrow> state \<Rightarrow> outcome \<times> state" where
  "onFileSelected tz dp parsedText st =
     (case parsedText of
        Inl msg \<Rightarrow> (JsonParseError msg, st)
      | Inr json \<Rightarrow>
          (case parseAnyGoogleTimeline dp json of
             Inl e \<Rightarrow> (Uncaught e, st)
           | Inr (parsedItems, fmt) \<Rightarrow>
               let valid = filter (\<lambda>it. validDate (Some (start it))) parsedItems;
                   st1 = st\<lparr>items := sortBy (\<lambda>it. getTime (start it)) valid, detectedFormat := fmt\<rparr>;
                   st2 = rebuildDays tz st1
               in if items st2 = [] then (NoSupportedData, st2)
                  else (Loaded (length (items st2)) (length (sortedDays st2)), st2)))"

section \<open>Documents that raise nothing\<close>

text \<open>
  No object of the value has an own property \<^verbatim>\<open>toString\<close>: then every conversion of a
  part of it to a number or to a string returns.
\<close>

fun noToString :: "json \<Rightarrow> bool" where
  "noToString (JObj kvs) = (map_of kvs ''toString'' = None \<and> (\<forall>kv \<in> set kvs. noToString (snd kv)))"
| "noToString (JArr xs) = (\<forall>x \<in> set xs. noToString x)"
| "noToString _ = True"

text \<open>The same of a value that may be undefined.\<close>

fun okv :: "json option \<Rightarrow> bool" where
  "okv None = True"
| "okv (Some j) = noToString j"

section \<open>The dispatch as the specification words it\<close>

text \<open>
  The tag of the first of the three keys, in the order \<^verbatim>\<open>timelineObjects\<close>,
  \<^verbatim>\<open>semanticSegments\<close>, \<^verbatim>\<open>locations\<close>, that is a field of the document with an array
  value; \<open>Unknown\<close> when none is.
\<close>

definition detectFormat :: "json \<Rightarrow> Format" where
  "detectFormat doc =
     (if isArray (get doc ''timelineObjects'') then TimelineObjects
      else if isArray (get doc ''semanticSegments'') then SemanticSegments
      else if isArray (get doc ''locations'') then RecordsLocations
      else Unknown)"

section \<open>Calendar days of Items\<close>




section \<open>Example values\<close>

text \<open>A state with one day, selected.\<close>

definition oneDay :: state where
  "oneDay = \<lparr>items = [], sortedDays = [Date 0], dayKeySet = [Some 19700101],
     selectedDay = Some (Date 0), detectedFormat = Unknown, monthAnchor = Some (Date 0)\<rparr>"


text \<open>\<^verbatim>\<open>Date.parse\<close> at the one text the examples use, 10 o'clock UTC on 1 May 2023.\<close>

definition sampleDateParse :: "string \<Rightarrow> int option" where
  "sampleDateParse s = (if s = ''2023-05-01T10:00:00Z'' then Some 1682935200000 else None)"

text \<open>
  A document of raw locations with one record and an unrelated key, and one whose record
  holds an object with an own \<^verbatim>\<open>toString\<close> for its latitude.
\<close>

definition locationsDoc :: json where
  "locationsDoc = JObj
     [(''exportedBy'', JStr ''phone''),
      (''locations'', JArr
        [JObj [(''timestampMs'', JStr ''1000''),
               (''latitudeE7'', JNum (Fin 351234567)),
               (''longitudeE7'', JNum (Fin 1391234567))]])]"

definition raisingDoc :: json where
  "raisingDoc = JObj
     [(''locations'', JArr
        [JObj [(''timestampMs'', JStr ''1000''),
               (''latitudeE7'', JObj [(''toString'', JNum (Fin 0))]),
               (''longitudeE7'', JNum (Fin 1391234567))]])]"

text \<open>
  Records of raw locations: one that decodes, one with no time, and one whose latitude
  is an object with an own \<^verbatim>\<open>toString\<close>.
\<close>

definition goodRecord :: json where
  "goodRecord = JObj [(''timestampMs'', JStr ''1000''),
                      (''latitudeE7'', JNum (Fin 351234567)),
                      (''longitudeE7'', JNum (Fin 1391234567))]"

definition untimedRecord :: json where
  "untimedRecord = JObj [(''latitudeE7'', JNum (Fin 351234567)),
                         (''longitudeE7'', JNum (Fin 1391234567))]"

definition raisingRecord :: json where
  "raisingRecord = JObj [(''timestampMs'', JStr ''1000''),
                         (''latitudeE7'', JObj [(''toString'', JNum (Fin 0))]),
                         (''longitudeE7'', JNum (Fin 1391234567))]"

definition goodItem :: Item where
  "goodItem = \<lparr>kind = rawpoint, start = Date 1000, endTime = None,
                point = Some \<lparr>lat = 35.1234567, lng = 139.1234567\<rparr>, path = [],
                distanceMeters = None\<rparr>"

text \<open>
  Two activity segments of the newer format, both with a start point and an end point:
  one with a timeline path of a single point, one with no timeline path.
\<close>

definition onePointSegment :: json where
  "onePointSegment = JObj
     [(''startTime'', JStr ''2023-05-01T10:00:00Z''),
      (''activity'', JObj [(''start'', JObj [(''latLng'', JStr ''35.0,139.0'')]),
                           (''end'', JObj [(''latLng'', JStr ''35.1,139.1'')])]),
      (''timelinePath'', JArr [JObj [(''point'', JStr ''35.05,139.05'')]])]"

definition noPathSegment :: json where
  "noPathSegment = JObj
     [(''startTime'', JStr ''2023-05-01T10:00:00Z''),
      (''activity'', JObj [(''start'', JObj [(''latLng'', JStr ''35.0,139.0'')]),
                           (''end'', JObj [(''latLng'', JStr ''35.1,139.1'')])])]"

text \<open>The state after \<open>locationsDoc\<close> is loaded, in the time zone of UTC.\<close>

definition loadedState :: state where
  "loadedState = \<lparr>items = [goodItem], sortedDays = [Date 0], dayKeySet = [Some 19700101],
     selectedDay = Some (Date 0), detectedFormat = RecordsLocations, monthAnchor = Some (Date 0)\<rparr>"

text \<open>The state with no data, after a load that finds none.\<close>

definition emptiedState :: state where
  "emptiedState = \<lparr>items = [], sortedDays = [], dayKeySet = [], selectedDay = None,
     detectedFormat = Unknown, monthAnchor = None\<rparr>"






section \<open>Evaluation\<close>

lemmas num_defs = stringToNumber_def trim_def isSpace_def unsignedDecimal_def isDigit_def
  exponentPart_def decVal_def digitsVal_def digitVal_def mkNum_def nonDecimal_def hexVal_def


lemmas latlng_defs = parseLatLngString_def degree_def finitePair_def


section \<open>Lemmas on the calendar\<close>

lemma div_bounds: "0 < n \<Longrightarrow> n * (x div n) \<le> x \<and> x < n * (x div n) + n" for x n :: int
  using mult_div_mod_eq [of n x] pos_mod_bound [of n x] pos_mod_sign [of n x] by linarith

lemma div_succ:
  fixes x n :: int
  assumes "0 < n"
  shows "(x + 1) div n = x div n + (if (x + 1) mod n = 0 then 1 else 0)"
proof (cases "x mod n = n - 1")
  case True
  have "x + 1 = n * (x div n + 1) + 0"
    using mult_div_mod_eq [of n x] True by (simp add: algebra_simps)
  then have "(x + 1) div n = x div n + 1" "(x + 1) mod n = 0"
    using assms int_div_pos_eq [of "x + 1" n "x div n + 1" 0] int_mod_pos_eq [of "x + 1" n "x div n + 1" 0]
    by auto
  then show ?thesis by simp
next
  case False
  have r: "0 \<le> x mod n + 1" "x mod n + 1 < n"
    using False pos_mod_bound [OF assms, of x] pos_mod_sign [OF assms, of x] by linarith+
  have "x + 1 = n * (x div n) + (x mod n + 1)"
    using mult_div_mod_eq [of n x] by simp
  then have "(x + 1) div n = x div n" "(x + 1) mod n = x mod n + 1"
    using r int_div_pos_eq [of "x + 1" n "x div n" "x mod n + 1"]
      int_mod_pos_eq [of "x + 1" n "x div n" "x mod n + 1"]
    by auto
  then show ?thesis using pos_mod_sign [OF assms, of x] by simp
qed

lemma mod_shift: "(y - n * k) mod n = y mod n" for y n k :: int
  using mod_mult_self2 [of y n "- k"] by simp

lemma leap_mods:
  fixes y :: int
  shows "(y - 1968) mod 4 = y mod 4" "(y - 1900) mod 100 = y mod 100" "(y - 1600) mod 400 = y mod 400"
  using mod_shift [of y 4 492] mod_shift [of y 100 19] mod_shift [of y 400 4] by simp_all

lemma mod_400_100: "y mod 400 = 0 \<Longrightarrow> y mod 100 = 0" for y :: int
  using mod_mod_cancel [of 100 400 y] by simp

lemma mod_100_4: "y mod 100 = 0 \<Longrightarrow> y mod 4 = 0" for y :: int
  using mod_mod_cancel [of 4 100 y] by simp

lemma DayFromYear_Suc: "DayFromYear (y + 1) = DayFromYear y + DaysInYear y"
proof -
  have a: "(y + 1 - 1969) div 4 = (y - 1969) div 4 + (if y mod 4 = 0 then 1 else 0)"
    using div_succ [of 4 "y - 1969"] leap_mods(1) [of y] by (simp add: algebra_simps)
  have b: "(y + 1 - 1901) div 100 = (y - 1901) div 100 + (if y mod 100 = 0 then 1 else 0)"
    using div_succ [of 100 "y - 1901"] leap_mods(2) [of y] by (simp add: algebra_simps)
  have c: "(y + 1 - 1601) div 400 = (y - 1601) div 400 + (if y mod 400 = 0 then 1 else 0)"
    using div_succ [of 400 "y - 1601"] leap_mods(3) [of y] by (simp add: algebra_simps)
  show ?thesis
    unfolding DayFromYear_def DaysInYear_def a b c
    using mod_100_4 [of y] mod_400_100 [of y] by auto
qed

lemma DayFromYear_lower: "146097 * (y - 1970) - 506 \<le> 400 * DayFromYear y"
  unfolding DayFromYear_def
  using div_bounds [of 4 "y - 1969"] div_bounds [of 100 "y - 1901"] div_bounds [of 400 "y - 1601"]
  by simp

lemma DayFromYear_upper: "400 * DayFromYear y \<le> 146097 * (y - 1970) + 589"
  unfolding DayFromYear_def
  using div_bounds [of 4 "y - 1969"] div_bounds [of 100 "y - 1901"] div_bounds [of 400 "y - 1601"]
  by simp

lemma DaysInYear_pos: "365 \<le> DaysInYear y" "DaysInYear y \<le> 366"
  by (simp_all add: DaysInYear_def)

lemma YearFromDay_bounds:
  "DayFromYear (YearFromDay d) \<le> d \<and> d < DayFromYear (YearFromDay d + 1)"
proof -
  define y where "y = 1970 + (400 * d) div 146097"
  have e: "146097 * (y - 1970) \<le> 400 * d" "400 * d < 146097 * (y - 1970) + 146097"
    using div_bounds [of 146097 "400 * d"] by (simp_all add: y_def)
  have l: "DayFromYear (y - 1) \<le> d"
    using DayFromYear_upper [of "y - 1"] e by simp
  have u: "d < DayFromYear (y + 2)"
    using DayFromYear_lower [of "y + 2"] e by simp
  have s: "DayFromYear y = DayFromYear (y - 1) + DaysInYear (y - 1)"
    "DayFromYear (y + 2) = DayFromYear (y + 1) + DaysInYear (y + 1)"
    using DayFromYear_Suc [of "y - 1"] DayFromYear_Suc [of "y + 1"] by (simp_all add: algebra_simps)
  show ?thesis
    using l u s unfolding YearFromDay_def y_def [symmetric] Let_def
    by (auto simp: algebra_simps)
qed


lemma DayFromYear_mono: "y \<le> z \<Longrightarrow> DayFromYear y \<le> DayFromYear z"
proof (induction z rule: int_ge_induct)
  case base
  show ?case by simp
next
  case (step i)
  then show ?case using DayFromYear_Suc [of i] DaysInYear_pos(1) [of i] by simp
qed

lemma DayFromYear_less: "y < z \<Longrightarrow> DayFromYear y < DayFromYear z"
  using DayFromYear_mono [of "y + 1" z] DayFromYear_Suc [of y] DaysInYear_pos(1) [of y] by simp

lemma YearFromDay_unique:
  assumes "DayFromYear y \<le> d" "d < DayFromYear (y + 1)"
  shows "YearFromDay d = y"
proof (rule ccontr)
  assume n: "YearFromDay d \<noteq> y"
  show False
  proof (cases "YearFromDay d < y")
    case True
    then have "DayFromYear (YearFromDay d + 1) \<le> DayFromYear y"
      using DayFromYear_mono [of "YearFromDay d + 1" y] by simp
    then show False using YearFromDay_bounds [of d] assms by simp
  next
    case False
    then have "DayFromYear (y + 1) \<le> DayFromYear (YearFromDay d)"
      using n DayFromYear_mono [of "y + 1" "YearFromDay d"] by simp
    then show False using YearFromDay_bounds [of d] assms by simp
  qed
qed

lemma YearFromDay_mono: "d \<le> e \<Longrightarrow> YearFromDay d \<le> YearFromDay e"
proof (rule ccontr)
  assume a: "d \<le> e" and "\<not> YearFromDay d \<le> YearFromDay e"
  then have "DayFromYear (YearFromDay e + 1) \<le> DayFromYear (YearFromDay d)"
    using DayFromYear_mono [of "YearFromDay e + 1" "YearFromDay d"] by simp
  then show False using YearFromDay_bounds [of d] YearFromDay_bounds [of e] a by simp
qed

lemma DayWithinYear_range: "0 \<le> DayWithinYear d" "DayWithinYear d < DaysInYear (YearFromDay d)"
  using YearFromDay_bounds [of d] DayFromYear_Suc [of "YearFromDay d"]
  by (simp_all add: DayWithinYear_def)

lemma MonthFromDay_range: "0 \<le> MonthFromDay d" "MonthFromDay d \<le> 11"
  by (simp_all add: MonthFromDay_def Let_def)


lemma DateFromDay_range: "1 \<le> DateFromDay d" "DateFromDay d \<le> 31"
proof -
  define w where "w = DayWithinYear d"
  define l :: int where "l = (if InLeapYear d then 1 else 0)"
  have r: "0 \<le> w" "w < 365 + l"
    using DayWithinYear_range [of d] DaysInYear_pos [of "YearFromDay d"]
    by (auto simp: w_def l_def InLeapYear_def)
  have l01: "l = 0 \<or> l = 1" by (simp add: l_def)
  have ms: "monthStart (InLeapYear d) m = (if m = 0 then 0 else if m = 1 then 31
      else l +
        (if m = 2 then 59 else if m = 3 then 90 else if m = 4 then 120
         else if m = 5 then 151 else if m = 6 then 181 else if m = 7 then 212
         else if m = 8 then 243 else if m = 9 then 273 else if m = 10 then 304 else 334))" for m
    by (simp add: monthStart_def l_def)
  have "1 \<le> DateFromDay d \<and> DateFromDay d \<le> 31"
    unfolding DateFromDay_def MonthFromDay_def Let_def w_def [symmetric] l_def [symmetric] ms
    using r l01 by (simp split: if_splits) linarith?
  then show "1 \<le> DateFromDay d" "DateFromDay d \<le> 31" by simp_all
qed

lemma MakeDay_civil: "MakeDay (YearFromDay d) (MonthFromDay d) (DateFromDay d) = d"
proof -
  have m: "MonthFromDay d div 12 = 0" "MonthFromDay d mod 12 = MonthFromDay d"
    using MonthFromDay_range [of d] by simp_all
  show ?thesis
    by (simp add: MakeDay_def m DateFromDay_def DayWithinYear_def InLeapYear_def)
qed

lemma keyOfDay_same_year:
  assumes "YearFromDay d = YearFromDay e" "d \<le> e"
  shows "keyOfDay d \<le> keyOfDay e"
proof -
  define w where "w = DayWithinYear d"
  define v where "v = DayWithinYear e"
  define l :: int where "l = (if InLeapYear d then 1 else 0)"
  have le: "InLeapYear e = InLeapYear d" using assms by (simp add: InLeapYear_def)
  have wv: "w \<le> v" using assms by (simp add: w_def v_def DayWithinYear_def)
  have l01: "l = 0 \<or> l = 1" by (simp add: l_def)
  have ms: "monthStart (InLeapYear d) m = (if m = 0 then 0 else if m = 1 then 31
      else l +
        (if m = 2 then 59 else if m = 3 then 90 else if m = 4 then 120
         else if m = 5 then 151 else if m = 6 then 181 else if m = 7 then 212
         else if m = 8 then 243 else if m = 9 then 273 else if m = 10 then 304 else 334))" for m
    by (simp add: monthStart_def l_def)
  have r: "0 \<le> w" "v < 365 + l"
    using DayWithinYear_range [of d] DayWithinYear_range [of e] DaysInYear_pos [of "YearFromDay e"] le
    by (auto simp: w_def v_def l_def InLeapYear_def)
  have "(MonthFromDay d + 1) * 100 + DateFromDay d \<le> (MonthFromDay e + 1) * 100 + DateFromDay e"
    unfolding DateFromDay_def MonthFromDay_def Let_def le w_def [symmetric] v_def [symmetric] l_def [symmetric] ms
    using r wv l01 by (simp split: if_splits) linarith?
  then show ?thesis using assms by (simp add: keyOfDay_def)
qed

lemma keyOfDay_mono: "d \<le> e \<Longrightarrow> keyOfDay d \<le> keyOfDay e"
proof (cases "YearFromDay d = YearFromDay e")
  case True
  assume "d \<le> e"
  then show ?thesis using True keyOfDay_same_year by simp
next
  case False
  assume "d \<le> e"
  then have "YearFromDay d + 1 \<le> YearFromDay e" using False YearFromDay_mono [of d e] by simp
  then show ?thesis
    using MonthFromDay_range [of d] MonthFromDay_range [of e] DateFromDay_range [of d] DateFromDay_range [of e]
    by (simp add: keyOfDay_def)
qed

lemma keyOfDay_inj: "keyOfDay d = keyOfDay e \<Longrightarrow> d = e"
proof -
  assume k: "keyOfDay d = keyOfDay e"
  have b: "0 \<le> (MonthFromDay x + 1) * 100 + DateFromDay x \<and> (MonthFromDay x + 1) * 100 + DateFromDay x < 10000" for x
    using MonthFromDay_range [of x] DateFromDay_range [of x] by simp
  have yx: "keyOfDay x div 10000 = YearFromDay x" for x
    using b [of x] int_div_pos_eq [of "keyOfDay x" 10000 "YearFromDay x" "(MonthFromDay x + 1) * 100 + DateFromDay x"]
    by (simp add: keyOfDay_def)
  have y: "YearFromDay d = YearFromDay e" using k yx [of d] yx [of e] by simp
  have c: "1 \<le> DateFromDay x \<and> DateFromDay x < 100" for x
    using DateFromDay_range [of x] by simp
  have mx: "(keyOfDay x - YearFromDay x * 10000) div 100 = MonthFromDay x + 1" for x
    using c [of x] int_div_pos_eq [of "keyOfDay x - YearFromDay x * 10000" 100 "MonthFromDay x + 1" "DateFromDay x"]
    by (simp add: keyOfDay_def)
  have m: "MonthFromDay d = MonthFromDay e" using k y mx [of d] mx [of e] by simp
  have dt: "DateFromDay d = DateFromDay e" using k y m by (simp add: keyOfDay_def)
  have "d = MakeDay (YearFromDay d) (MonthFromDay d) (DateFromDay d)"
    by (simp only: MakeDay_civil)
  also have "\<dots> = MakeDay (YearFromDay e) (MonthFromDay e) (DateFromDay e)"
    by (simp only: y m dt)
  also have "\<dots> = e" by (rule MakeDay_civil)
  finally show ?thesis .
qed

lemma keyOfDay_strict: "d < e \<Longrightarrow> keyOfDay d < keyOfDay e"
  using keyOfDay_mono [of d e] keyOfDay_inj [of d e] by (cases "keyOfDay d = keyOfDay e") simp_all

section \<open>Lemmas on the navigator and on sorting\<close>

lemmas cal_defs = DayFromYear_def DaysInYear_def YearFromDay_def InLeapYear_def DayWithinYear_def
  monthStart_def MonthFromDay_def DateFromDay_def MakeDay_def LocalDay_def msPerDay_def maxTime_def
  clipTime_def

lemma findIndex_range: "- 1 \<le> findIndex p xs \<and> findIndex p xs < int (length xs)"
  by (induction xs) (auto simp: Let_def)

lemma currentDayIndex_range:
  "- 1 \<le> currentDayIndex tz st \<and> currentDayIndex tz st < int (length (sortedDays st))"
  using findIndex_range [of "\<lambda>d. strictEq (dayKey tz d) (dayKey tz (the (selectedDay st)))" "sortedDays st"]
  by (auto simp: currentDayIndex_def split: option.splits)

lemma dk0: "dayKey 0 (Date 0) = Some 19700101"
  by (simp add: dayKey_def cal_defs)





section \<open>Lemmas on documents that raise nothing\<close>

lemma noToString_get: "noToString j \<Longrightarrow> okv (get j k)"
proof (cases j)
  case (JObj kvs)
  assume n: "noToString j"
  show ?thesis
  proof (cases "map_of kvs k")
    case None
    then show ?thesis using JObj by simp
  next
    case (Some v)
    then have "(k, v) \<in> set kvs" by (rule map_of_SomeD)
    then show ?thesis using n JObj Some by auto
  qed
qed simp_all

lemma okv_getOpt: "okv v \<Longrightarrow> okv (getOpt v k)"
proof (cases v)
  case (Some j)
  assume "okv v"
  then show ?thesis using Some noToString_get [of j k] by (cases j) simp_all
qed simp

lemma okv_get: "okv (Some j) \<Longrightarrow> okv (get j k)"
  using noToString_get by simp

lemma noToString_orEmpty: "okv v \<Longrightarrow> noToString (orEmpty v)"
  by (cases v) (auto simp: orEmpty_def)

lemma noToString_not_fails: "noToString j \<Longrightarrow> \<not> toStringFails j"
  by (induction j rule: toStringFails.induct) auto

lemma Number_returns: "okv v \<Longrightarrow> \<exists>n. Number v = Inr n"
proof (cases v)
  case (Some j)
  assume "okv v"
  then show ?thesis using Some noToString_not_fails [of j] by (cases j) auto
qed simp

lemma latE7ToNum_returns: "okv v \<Longrightarrow> \<exists>r. latE7ToNum v = Inr r"
  using Number_returns [of v] by (auto simp: latE7ToNum_def split: jsnum.splits)

lemma checkString_returns: "okv v \<Longrightarrow> checkString v = Inr ()"
  using noToString_not_fails by (cases v) (auto simp: checkString_def String_ok_def)

lemma distanceOf_returns: "okv v \<Longrightarrow> \<exists>r. distanceOf v = Inr r"
  using Number_returns [of v] by (auto simp: distanceOf_def bindE_def)

lemma bindE_Inr [simp]: "bindE (Inr x) f = f x"
  by (simp add: bindE_def)

lemma bindE_Inl [simp]: "bindE (Inl e) f = Inl e"
  by (simp add: bindE_def)

lemma waypoints_returns: "\<forall>p \<in> set ps. noToString p \<Longrightarrow> \<exists>r. waypoints ps = Inr r"
proof (induction ps)
  case Nil
  show ?case by simp
next
  case (Cons p ps)
  obtain a where a: "latE7ToNum (getOpt (Some p) ''latE7'') = Inr a"
    using Cons.prems latE7ToNum_returns [of "getOpt (Some p) ''latE7''"] okv_getOpt [of "Some p"] by auto
  obtain b where b: "latE7ToNum (getOpt (Some p) ''lngE7'') = Inr b"
    using Cons.prems latE7ToNum_returns [of "getOpt (Some p) ''lngE7''"] okv_getOpt [of "Some p"] by auto
  obtain r where r: "waypoints ps = Inr r" using Cons by auto
  show ?case by (simp add: a b r)
qed

lemma forEach_returns: "\<forall>x \<in> set xs. \<exists>r. f x = Inr r \<Longrightarrow> \<exists>r. forEach f xs = Inr r"
proof (induction xs)
  case Nil
  show ?case by simp
next
  case (Cons x xs)
  obtain a where a: "f x = Inr a" using Cons.prems by auto
  obtain r where r: "forEach f xs = Inr r" using Cons by auto
  show ?case by (simp add: a r)
qed

lemma activitySegment_returns:
  assumes "noToString seg"
  shows "\<exists>r. activitySegment dp seg = Inr r"
proof -
  have g: "okv (get seg k)" for k using assms noToString_get by simp
  have c: "(if truthy (get seg ''activityType'') then checkString (get seg ''activityType'') else Inr ()) = Inr ()"
    using g checkString_returns by simp
  obtain dist where d: "distanceOf (get seg ''distance'') = Inr dist"
    using g distanceOf_returns by blast
  have "okv (getOpt (get seg ''waypointPath'') ''waypoints'')" using g okv_getOpt by simp
  then have "\<exists>w. (case getOpt (get seg ''waypointPath'') ''waypoints'' of
               Some (JArr wps) \<Rightarrow> waypoints wps
             | _ \<Rightarrow> Inr []) = Inr w"
    using waypoints_returns by (auto split: option.splits json.splits)
  then obtain w where w: "(case getOpt (get seg ''waypointPath'') ''waypoints'' of
               Some (JArr wps) \<Rightarrow> waypoints wps
             | _ \<Rightarrow> Inr []) = Inr w" by blast
  have l: "\<exists>r. latE7ToNum (getOpt (get seg a) b) = Inr r" for a b
    using g okv_getOpt latE7ToNum_returns by simp
  obtain sLat where 1: "latE7ToNum (getOpt (get seg ''startLocation'') ''latitudeE7'') = Inr sLat" using l by blast
  obtain sLng where 2: "latE7ToNum (getOpt (get seg ''startLocation'') ''longitudeE7'') = Inr sLng" using l by blast
  obtain eLat where 3: "latE7ToNum (getOpt (get seg ''endLocation'') ''latitudeE7'') = Inr eLat" using l by blast
  obtain eLng where 4: "latE7ToNum (getOpt (get seg ''endLocation'') ''longitudeE7'') = Inr eLng" using l by blast
  show ?thesis
    unfolding activitySegment_def Let_def c d w 1 2 3 4 bindE_Inr by blast
qed

lemma placeVisit_returns:
  assumes "noToString v"
  shows "\<exists>r. placeVisit dp v = Inr r"
proof -
  define loc where "loc = orEmpty (get v ''location'')"
  have "noToString loc" using assms noToString_get noToString_orEmpty by (simp add: loc_def)
  then have g: "okv (get loc k)" for k using noToString_get by simp
  have c: "(if truthy (get loc k) then checkString (get loc k) else Inr ()) = Inr ()" for k
    using g checkString_returns by simp
  obtain a where a: "latE7ToNum (get loc ''latitudeE7'') = Inr a" using g latE7ToNum_returns by blast
  obtain b where b: "latE7ToNum (get loc ''longitudeE7'') = Inr b" using g latE7ToNum_returns by blast
  show ?thesis
    unfolding placeVisit_def Let_def loc_def [symmetric] c a b bindE_Inr by blast
qed

lemma noToString_the: "noToString j \<Longrightarrow> truthy (get j k) \<Longrightarrow> noToString (the (get j k))"
  using noToString_get [of j k] by (cases "get j k") simp_all

lemma timelineObject_returns:
  assumes "noToString obj"
  shows "\<exists>r. timelineObject dp obj = Inr r"
proof -
  have "\<exists>a. (if truthy (Some obj) \<and> truthy (get obj ''activitySegment'')
            then activitySegment dp (the (get obj ''activitySegment'')) else Inr []) = Inr a"
    using noToString_the [OF assms, of "''activitySegment''"]
      activitySegment_returns [of "the (get obj ''activitySegment'')" dp]
    by (cases "truthy (Some obj) \<and> truthy (get obj ''activitySegment'')") auto
  then obtain a where a: "(if truthy (Some obj) \<and> truthy (get obj ''activitySegment'')
            then activitySegment dp (the (get obj ''activitySegment'')) else Inr []) = Inr a" by blast
  have "\<exists>b. (if truthy (Some obj) \<and> truthy (get obj ''placeVisit'')
            then placeVisit dp (the (get obj ''placeVisit'')) else Inr []) = Inr b"
    using noToString_the [OF assms, of "''placeVisit''"]
      placeVisit_returns [of "the (get obj ''placeVisit'')" dp]
    by (cases "truthy (Some obj) \<and> truthy (get obj ''placeVisit'')") auto
  then obtain b where b: "(if truthy (Some obj) \<and> truthy (get obj ''placeVisit'')
            then placeVisit dp (the (get obj ''placeVisit'')) else Inr []) = Inr b" by blast
  show ?thesis unfolding timelineObject_def a b bindE_Inr by blast
qed

lemma semanticSegment_returns:
  assumes "noToString seg"
  shows "\<exists>r. semanticSegment dp seg = Inr r"
proof -
  have g: "okv (get seg k)" for k using assms noToString_get by simp
  have c: "(if notNullish (getOpt (get seg ''visit'') ''hierarchyLevel'')
             then checkString (getOpt (get seg ''visit'') ''hierarchyLevel'') else Inr ()) = Inr ()"
    using g okv_getOpt checkString_returns by simp
  obtain dist where d: "distanceOf (getOpt (get seg ''activity'') ''distanceMeters'') = Inr dist"
    using g okv_getOpt distanceOf_returns by blast
  show ?thesis
    by (simp add: semanticSegment_def semanticVisit_def semanticActivity_def Let_def c d)
qed

lemma recordsLocation_returns:
  assumes "noToString loc"
  shows "\<exists>r. recordsLocation dp loc = Inr r"
proof -
  have g: "okv (getOpt (Some loc) k)" for k using assms okv_getOpt [of "Some loc"] by simp
  obtain a where a: "latE7ToNum (getOpt (Some loc) ''latitudeE7'') = Inr a" using g latE7ToNum_returns by blast
  obtain b where b: "latE7ToNum (getOpt (Some loc) ''longitudeE7'') = Inr b" using g latE7ToNum_returns by blast
  have c: "checkString (getOpt (Some loc) ''accuracy'') = Inr ()" using g checkString_returns by simp
  show ?thesis
    by (simp add: recordsLocation_def Let_def a b c split: option.splits)
qed

lemma okv_elems: "okv v \<Longrightarrow> \<forall>x \<in> set (elems v). noToString x"
  by (induction v rule: elems.induct) auto

lemma parseAnyGoogleTimeline_returns:
  assumes "noToString json"
  shows "\<exists>r. parseAnyGoogleTimeline dp json = Inr r"
proof -
  have e: "\<forall>x \<in> set (elems (get json k)). noToString x" for k
    using okv_elems [OF noToString_get [OF assms, of k]] by blast
  obtain a where a: "parseTimelineObjects dp (elems (get json ''timelineObjects'')) = Inr a"
    using e timelineObject_returns forEach_returns [of _ "timelineObject dp"]
    by (metis parseTimelineObjects_def)
  obtain b where b: "parseSemanticSegments dp (elems (get json ''semanticSegments'')) = Inr b"
    using e semanticSegment_returns forEach_returns [of _ "semanticSegment dp"]
    by (metis parseSemanticSegments_def)
  obtain c where c: "parseRecordsLocations dp (elems (get json ''locations'')) = Inr c"
    using e recordsLocation_returns forEach_returns [of _ "recordsLocation dp"]
    by (metis parseRecordsLocations_def)
  show ?thesis by (simp add: parseAnyGoogleTimeline_def a b c)
qed

section \<open>Lemmas on the dispatcher\<close>

lemma number_1000: "stringToNumber ''1000'' = Fin 1000"
  by (simp add: num_defs)

lemma date_1000: "parseDateDual dp (Some JNull) (Some (JStr ''1000'')) = Some (Date 1000)"
  by (simp add: parseDateDual_def newDateOfNumber_def maxTime_def number_1000)

lemma recordTime_1000: "recordTime dp (JObj ((''timestampMs'', JStr ''1000'') # kvs)) = Some (Date 1000)"
  by (simp add: recordTime_def coalesce_def date_1000)

lemma record_raises:
  "recordsLocation dp (JObj [(''timestampMs'', JStr ''1000''),
               (''latitudeE7'', JObj [(''toString'', JNum (Fin 0))]),
               (''longitudeE7'', JNum (Fin 1391234567))]) = Inl TypeError"
  by (simp add: recordsLocation_def recordTime_1000 latE7ToNum_def)

lemma record_parses:
  "recordsLocation dp (JObj [(''timestampMs'', JStr ''1000''),
               (''latitudeE7'', JNum (Fin 351234567)),
               (''longitudeE7'', JNum (Fin 1391234567))]) =
   Inr [\<lparr>kind = rawpoint, start = Date 1000, endTime = None,
               point = Some \<lparr>lat = 35.1234567, lng = 139.1234567\<rparr>, path = [],
               distanceMeters = None\<rparr>]"
  by (simp add: recordsLocation_def recordTime_1000 latE7ToNum_def mkLatLng_def checkString_def String_ok_def)

lemma locationsDoc_parses:
  "parseAnyGoogleTimeline dp locationsDoc =
       Inr ([\<lparr>kind = rawpoint, start = Date 1000, endTime = None,
               point = Some \<lparr>lat = 35.1234567, lng = 139.1234567\<rparr>, path = [],
               distanceMeters = None\<rparr>], RecordsLocations)"
  by (simp add: locationsDoc_def parseAnyGoogleTimeline_def parseRecordsLocations_def record_parses)

lemma isArray_get_truthy: "(truthy (Some json) \<and> isArray (get json k)) = isArray (get json k)"
  by (cases json) simp_all

lemma parseAny_format:
  "parseAnyGoogleTimeline dp json = Inr (its, fmt) \<Longrightarrow> fmt = detectFormat json"
  by (auto simp: parseAnyGoogleTimeline_def detectFormat_def bindE_def isArray_get_truthy split: if_splits sum.splits)

lemma parseAny_unknown:
  "detectFormat json = Unknown \<Longrightarrow> parseAnyGoogleTimeline dp json = Inr ([], Unknown)"
  by (auto simp: parseAnyGoogleTimeline_def detectFormat_def isArray_get_truthy split: if_splits)

lemma parseAny_fields:
  "\<forall>k \<in> {''timelineObjects'', ''semanticSegments'', ''locations''}. map_of kvs k = map_of kvs' k
   \<Longrightarrow> parseAnyGoogleTimeline dp (JObj kvs) = parseAnyGoogleTimeline dp (JObj kvs')"
  by (simp add: parseAnyGoogleTimeline_def)

lemma parseAny_cases:
  "parseAnyGoogleTimeline dp json = Inl TypeError
   \<or> (\<exists>its. parseAnyGoogleTimeline dp json = Inr (its, detectFormat json))"
proof (cases "parseAnyGoogleTimeline dp json")
  case (Inl e)
  then show ?thesis by (cases e) simp
next
  case (Inr r)
  then show ?thesis using parseAny_format [of dp json "fst r" "snd r"] by (cases r) auto
qed

section \<open>Lemmas on the parsers\<close>

lemma keep_valid:
  "(case x of Date t \<Rightarrow> Some (Date t) | InvalidDate \<Rightarrow> None) = Some d \<Longrightarrow> validDate (Some d)"
  by (cases x) auto

lemma parseDateDual_valid: "parseDateDual dp a b = Some d \<Longrightarrow> validDate (Some d)"
  by (auto simp: parseDateDual_def Let_def dest!: keep_valid split: option.splits json.splits if_splits)

lemma bindE_eq_Inr: "bindE m f = Inr r \<longleftrightarrow> (\<exists>x. m = Inr x \<and> f x = Inr r)"
  by (cases m) simp_all

lemma activitySegment_starts:
  "activitySegment dp seg = Inr its \<Longrightarrow> \<forall>it \<in> set its. validDate (Some (start it))"
  using parseDateDual_valid
  by (auto simp: activitySegment_def durationStart_def bindE_eq_Inr Let_def split: option.splits)

lemma placeVisit_starts:
  "placeVisit dp v = Inr its \<Longrightarrow> \<forall>it \<in> set its. validDate (Some (start it))"
  using parseDateDual_valid
  by (auto simp: placeVisit_def durationStart_def bindE_eq_Inr Let_def split: option.splits)

lemma timelineObject_starts:
  "timelineObject dp obj = Inr its \<Longrightarrow> \<forall>it \<in> set its. validDate (Some (start it))"
  using activitySegment_starts placeVisit_starts
  by (fastforce simp: timelineObject_def bindE_eq_Inr split: if_splits)

lemma validDate_the: "validDate d \<Longrightarrow> validDate (Some (the d))"
  by (induction d rule: validDate.induct) simp_all

lemma semanticSegment_starts:
  "semanticSegment dp seg = Inr its \<Longrightarrow> \<forall>it \<in> set its. validDate (Some (start it))"
  using validDate_the
  by (auto simp: semanticSegment_def semanticVisit_def semanticActivity_def bindE_eq_Inr Let_def
      split: if_splits)

lemma recordsLocation_starts:
  "recordsLocation dp loc = Inr its \<Longrightarrow> \<forall>it \<in> set its. validDate (Some (start it))"
  using parseDateDual_valid
  by (auto simp: recordsLocation_def recordTime_def bindE_eq_Inr split: option.splits)

lemma forEach_all:
  "forEach f xs = Inr its \<Longrightarrow> (\<And>x r. f x = Inr r \<Longrightarrow> \<forall>it \<in> set r. P it) \<Longrightarrow> \<forall>it \<in> set its. P it"
proof (induction xs arbitrary: its)
  case Nil
  then show ?case by simp
next
  case (Cons x xs)
  from Cons.prems(1) obtain a b where a: "f x = Inr a" and b: "forEach f xs = Inr b" and i: "its = a @ b"
    by (auto simp: bindE_eq_Inr)
  have "\<forall>it \<in> set a. P it" using a Cons.prems(2) by blast
  moreover have "\<forall>it \<in> set b. P it" using Cons.IH [OF b] Cons.prems(2) by blast
  ultimately show ?case using i by auto
qed

lemma forEach_append:
  "forEach f (xs @ ys) = bindE (forEach f xs) (\<lambda>a. bindE (forEach f ys) (\<lambda>b. Inr (a @ b)))"
proof (induction xs)
  case Nil
  show ?case by (cases "forEach f ys") simp_all
next
  case (Cons x xs)
  show ?case
    by (cases "f x"; cases "forEach f xs"; cases "forEach f ys") (simp_all add: Cons)
qed

lemma forEach_drop: "f x = Inr [] \<Longrightarrow> forEach f (xs @ x # ys) = forEach f (xs @ ys)"
  by (cases "forEach f ys") (simp_all add: forEach_append)

lemma semanticSegment_drops:
  "\<not> validDate (dateOfField dp (getOpt (Some x) ''startTime'')) \<Longrightarrow> semanticSegment dp x = Inr []"
  by (simp add: semanticSegment_def)

lemma recordsLocation_drops: "recordTime dp x = None \<Longrightarrow> recordsLocation dp x = Inr []"
  by (simp add: recordsLocation_def)

lemma activitySegment_drops:
  assumes "noToString seg" "durationStart dp seg = None"
  shows "activitySegment dp seg = Inr []"
proof -
  obtain r where r: "activitySegment dp seg = Inr r" using activitySegment_returns [OF assms(1)] by blast
  then have "r = []" using assms(2) by (auto simp: activitySegment_def bindE_eq_Inr Let_def)
  then show ?thesis using r by simp
qed

lemma placeVisit_drops:
  assumes "noToString v" "durationStart dp v = None"
  shows "placeVisit dp v = Inr []"
proof -
  obtain r where r: "placeVisit dp v = Inr r" using placeVisit_returns [OF assms(1)] by blast
  then have "r = []" using assms(2) by (auto simp: placeVisit_def bindE_eq_Inr Let_def)
  then show ?thesis using r by simp
qed

lemma timelineObject_drops:
  assumes "noToString x"
    and "truthy (get x ''activitySegment'') \<longrightarrow> durationStart dp (the (get x ''activitySegment'')) = None"
    and "truthy (get x ''placeVisit'') \<longrightarrow> durationStart dp (the (get x ''placeVisit'')) = None"
  shows "timelineObject dp x = Inr []"
proof -
  have a: "(if truthy (Some x) \<and> truthy (get x ''activitySegment'')
            then activitySegment dp (the (get x ''activitySegment'')) else Inr []) = Inr []"
    using assms(2) noToString_the [OF assms(1), of "''activitySegment''"]
      activitySegment_drops [of "the (get x ''activitySegment'')" dp] by simp
  have b: "(if truthy (Some x) \<and> truthy (get x ''placeVisit'')
            then placeVisit dp (the (get x ''placeVisit'')) else Inr []) = Inr []"
    using assms(3) noToString_the [OF assms(1), of "''placeVisit''"]
      placeVisit_drops [of "the (get x ''placeVisit'')" dp] by simp
  show ?thesis unfolding timelineObject_def a b by simp
qed

lemma goodRecord_parses: "recordsLocation dp goodRecord = Inr [goodItem]"
  by (simp add: goodRecord_def goodItem_def record_parses)

lemma raisingRecord_raises: "recordsLocation dp raisingRecord = Inl TypeError"
  by (simp add: raisingRecord_def record_raises)

lemma untimedRecord_time: "recordTime dp untimedRecord = None"
  by (simp add: untimedRecord_def recordTime_def coalesce_def parseDateDual_def)

section \<open>Lemmas on the semantic segments\<close>

lemma latlng_start: "parseLatLngString (Some (JStr ''35.0,139.0'')) = Some \<lparr>lat = 35, lng = 139\<rparr>"
  by (simp add: latlng_defs num_defs)

lemma latlng_end: "parseLatLngString (Some (JStr ''35.1,139.1'')) = Some \<lparr>lat = 35.1, lng = 139.1\<rparr>"
  by (simp add: latlng_defs num_defs)

lemma latlng_mid: "parseLatLngString (Some (JStr ''35.05,139.05'')) = Some \<lparr>lat = 35.05, lng = 139.05\<rparr>"
  by (simp add: latlng_defs num_defs)

lemma sample_start: "dateOfField sampleDateParse (Some (JStr ''2023-05-01T10:00:00Z'')) = Some (Date 1682935200000)"
  by (simp add: dateOfField_def newDateOfString_def sampleDateParse_def clipTime_def maxTime_def)

lemma onePointSegment_path: "activityPath onePointSegment = [\<lparr>lat = 35.05, lng = 139.05\<rparr>]"
  by (simp add: onePointSegment_def activityPath_def latlng_start latlng_end latlng_mid)

lemma noPathSegment_path:
  "activityPath noPathSegment = [\<lparr>lat = 35, lng = 139\<rparr>, \<lparr>lat = 35.1, lng = 139.1\<rparr>]"
  by (simp add: noPathSegment_def activityPath_def latlng_start latlng_end)

lemma onePointSegment_fields:
  "getOpt (Some onePointSegment) ''startTime'' = Some (JStr ''2023-05-01T10:00:00Z'')"
  "getOpt (Some onePointSegment) ''endTime'' = None"
  "get onePointSegment ''visit'' = None"
  "truthy (get onePointSegment ''activity'')"
  "getOpt (get onePointSegment ''activity'') ''distanceMeters'' = None"
  by (simp_all add: onePointSegment_def)

lemma noPathSegment_fields:
  "getOpt (Some noPathSegment) ''startTime'' = Some (JStr ''2023-05-01T10:00:00Z'')"
  "getOpt (Some noPathSegment) ''endTime'' = None"
  "get noPathSegment ''visit'' = None"
  "truthy (get noPathSegment ''activity'')"
  "getOpt (get noPathSegment ''activity'') ''distanceMeters'' = None"
  "get noPathSegment ''timelinePath'' = None"
  by (simp_all add: noPathSegment_def)

lemma dateOfField_None: "dateOfField dp None = None"
  by (simp add: dateOfField_def)

lemma onePointSegment_parses:
  "semanticSegment sampleDateParse onePointSegment =
     Inr [\<lparr>kind = activity, start = Date 1682935200000, endTime = None, point = None,
           path = [\<lparr>lat = 35.05, lng = 139.05\<rparr>], distanceMeters = None\<rparr>]"
  by (simp add: semanticSegment_def semanticActivity_def distanceOf_def sample_start
      onePointSegment_fields onePointSegment_path dateOfField_None)

lemma noPathSegment_parses:
  "semanticSegment sampleDateParse noPathSegment =
     Inr [\<lparr>kind = activity, start = Date 1682935200000, endTime = None, point = None,
           path = activityPath noPathSegment, distanceMeters = None\<rparr>]"
  by (simp add: semanticSegment_def semanticActivity_def distanceOf_def sample_start
      noPathSegment_fields dateOfField_None)

lemma semanticSegment_activity_path:
  "semanticSegment dp seg = Inr its \<Longrightarrow> it \<in> set its \<Longrightarrow> kind it = activity \<Longrightarrow>
   path it = activityPath seg"
  by (auto simp: semanticSegment_def semanticVisit_def semanticActivity_def bindE_eq_Inr Let_def
      split: if_splits)

section \<open>Lemmas on loading\<close>

lemma dayKey_1000: "dayKey 0 (Date 1000) = Some 19700101"
  by (simp add: dayKey_def cal_defs)

lemma dateOfKey_19700101: "dateOfKey 0 (Some 19700101) = Date 0"
  by (simp add: dateOfKey_def jsRem_def cal_defs)

lemma rebuildDays_good:
  "rebuildDays 0 (st\<lparr>items := [goodItem], detectedFormat := RecordsLocations\<rparr>) = loadedState"
  by (simp add: rebuildDays_def setAdd_def sortBy_def goodItem_def dayKey_1000 dateOfKey_19700101
      loadedState_def)

lemma load_locationsDoc:
  "onFileSelected 0 dp (Inr locationsDoc) st = (Loaded 1 1, loadedState)"
proof -
  have p: "parseAnyGoogleTimeline dp locationsDoc = Inr ([goodItem], RecordsLocations)"
    using locationsDoc_parses [of dp] by (simp add: goodItem_def)
  have s: "sortBy (\<lambda>it. getTime (start it)) [goodItem] = [goodItem]" by (simp add: sortBy_def)
  have v: "validDate (Some (start goodItem))" by (simp add: goodItem_def)
  show ?thesis
    unfolding onFileSelected_def by (simp add: p v s rebuildDays_good Let_def) (simp add: loadedState_def)
qed

lemma rebuildDays_empty:
  "items st = [] \<Longrightarrow>
   rebuildDays tz st = st\<lparr>dayKeySet := [], sortedDays := [], monthAnchor := None, selectedDay := None\<rparr>"
  by (simp add: rebuildDays_def sortBy_def)

lemma parseAny_not_object:
  "\<forall>kvs. json \<noteq> JObj kvs \<Longrightarrow> parseAnyGoogleTimeline dp json = Inr ([], Unknown)"
  by (cases json) (simp_all add: parseAnyGoogleTimeline_def)

lemma load_nothing:
  "parseAnyGoogleTimeline dp json = Inr ([], fmt) \<Longrightarrow>
   onFileSelected tz dp (Inr json) st = (NoSupportedData,
     st\<lparr>items := [], detectedFormat := fmt, dayKeySet := [], sortedDays := [],
        monthAnchor := None, selectedDay := None\<rparr>)"
  by (simp add: onFileSelected_def sortBy_def rebuildDays_empty Let_def)

lemma raisingDoc_raises: "parseAnyGoogleTimeline dp raisingDoc = Inl TypeError"
  by (simp add: raisingDoc_def parseAnyGoogleTimeline_def parseRecordsLocations_def record_raises)

lemma load_raising: "onFileSelected tz dp (Inr raisingDoc) st = (Uncaught TypeError, st)"
  by (simp add: onFileSelected_def raisingDoc_raises)

lemma rebuildDays_overwrites:
  "rebuildDays tz (st\<lparr>items := its, detectedFormat := fmt\<rparr>)
   = rebuildDays tz (st'\<lparr>items := its, detectedFormat := fmt\<rparr>)"
  by (cases st; cases st') (simp add: rebuildDays_def Let_def)

lemma rebuildDays_items: "items (rebuildDays tz st) = items st"
  by (simp add: rebuildDays_def Let_def)

lemma rebuildDays_detectedFormat: "detectedFormat (rebuildDays tz st) = detectedFormat st"
  by (simp add: rebuildDays_def Let_def)

lemma snd_load:
  "parseAnyGoogleTimeline dp json = Inr (its, fmt) \<Longrightarrow>
   snd (onFileSelected tz dp (Inr json) st) =
     rebuildDays tz (st\<lparr>items := sortBy (\<lambda>it. getTime (start it))
                                (filter (\<lambda>it. validDate (Some (start it))) its),
                          detectedFormat := fmt\<rparr>)"
  by (simp add: onFileSelected_def Let_def)

lemma fst_load:
  "parseAnyGoogleTimeline dp json = Inr (its, fmt) \<Longrightarrow>
   fst (onFileSelected tz dp (Inr json) st) =
     (let st2 = rebuildDays tz (st\<lparr>items := sortBy (\<lambda>it. getTime (start it))
                                (filter (\<lambda>it. validDate (Some (start it))) its),
                          detectedFormat := fmt\<rparr>)
      in if items st2 = [] then NoSupportedData
         else Loaded (length (items st2)) (length (sortedDays st2)))"
  by (simp add: onFileSelected_def Let_def)

lemma load_independent:
  assumes "parseAnyGoogleTimeline dp json = Inr (its, fmt)"
  shows "onFileSelected tz dp (Inr json) st = onFileSelected tz dp (Inr json) st'"
proof -
  have "snd (onFileSelected tz dp (Inr json) st) = snd (onFileSelected tz dp (Inr json) st')"
    using snd_load [OF assms, of tz st] snd_load [OF assms, of tz st']
      rebuildDays_overwrites [where tz = tz and st = st and fmt = fmt and st' = st'] by simp
  moreover have "fst (onFileSelected tz dp (Inr json) st) = fst (onFileSelected tz dp (Inr json) st')"
    unfolding fst_load [OF assms] using rebuildDays_overwrites [where tz = tz and st = st and fmt = fmt and st' = st'] by simp
  ultimately show ?thesis by (simp add: prod_eq_iff)
qed

section \<open>Lemmas on the day index\<close>
































section \<open>Lemmas on the Items of a day\<close>



lemma DayFromYear_1900: "DayFromYear 1900 = - 25567"
  by (simp add: DayFromYear_def)




















section \<open>The claims\<close>





text \<open>
  C4 (confirmed). When the selected day is at index 0 of the day index, as
  \<^verbatim>\<open>currentDayIndex\<close> finds it, \<^verbatim>\<open>goPrev\<close> leaves the state as it is; when it is at
  the last index, \<^verbatim>\<open>goNext\<close> leaves the state as it is; with a day index of one day,
  neither button is enabled and both functions leave the state as it is.
\<close>

theorem navigator_boundaries:
  "(currentDayIndex tz st = 0 \<longrightarrow> goPrev tz st = st)
   \<and> (currentDayIndex tz st = int (length (sortedDays st)) - 1 \<longrightarrow> goNext tz st = st)
   \<and> (length (sortedDays st) = 1 \<longrightarrow>
        \<not> hasPrev tz st \<and> \<not> hasNext tz st \<and> goPrev tz st = st \<and> goNext tz st = st)"
proof -
  have a: "currentDayIndex tz st = 0 \<longrightarrow> goPrev tz st = st"
    by (simp add: goPrev_def)
  have b: "currentDayIndex tz st = int (length (sortedDays st)) - 1 \<longrightarrow> goNext tz st = st"
    by (simp add: goNext_def)
  have c: "length (sortedDays st) = 1 \<longrightarrow>
        \<not> hasPrev tz st \<and> \<not> hasNext tz st \<and> goPrev tz st = st \<and> goNext tz st = st"
    using currentDayIndex_range [of tz st]
    by (auto simp: hasPrev_def hasNext_def prevDisabled_def nextDisabled_def goPrev_def goNext_def Let_def)
  show ?thesis using a b c by blast
qed


theorem navigator_boundaries_witness:
  "currentDayIndex 0 oneDay = 0 \<and> length (sortedDays oneDay) = 1
   \<and> \<not> hasPrev 0 oneDay \<and> \<not> hasNext 0 oneDay \<and> goPrev 0 oneDay = oneDay \<and> goNext 0 oneDay = oneDay"
proof -
  have i: "currentDayIndex 0 oneDay = 0"
    by (simp add: currentDayIndex_def oneDay_def dk0)
  have l: "length (sortedDays oneDay) = 1" by (simp add: oneDay_def)
  show ?thesis using i l navigator_boundaries [of 0 oneDay] by simp
qed


text \<open>
  C1 (corrected). The claim has the dispatcher return a tag for every parsed value. The
  dispatcher runs the parser of the format it detects before it returns, and a parser
  raises TypeError when it converts a field that has no primitive value: for the
  document \<open>raisingDoc\<close>, whose one record has an object with an own \<^verbatim>\<open>toString\<close> as its
  latitude, nothing is returned.
\<close>

theorem dispatcher_raises_counterexample:
  "parseAnyGoogleTimeline (\<lambda>s. None) raisingDoc = Inl TypeError"
  by (simp add: raisingDoc_def parseAnyGoogleTimeline_def parseRecordsLocations_def record_raises)

text \<open>
  C1 as amended. Whenever \<^verbatim>\<open>parseAnyGoogleTimeline\<close> returns, the tag is that of the
  first of \<^verbatim>\<open>timelineObjects\<close>, \<^verbatim>\<open>semanticSegments\<close>, \<^verbatim>\<open>locations\<close> that is a field with
  an array value (\<open>detectFormat\<close>); it either returns or raises TypeError, and it returns
  for every document in which no object has an own \<^verbatim>\<open>toString\<close>; when none of the three
  keys is a field with an array value it returns the tag \<open>Unknown\<close> with no Items; and
  two objects that agree on the three fields give the same result, whatever other keys
  they hold.
\<close>

theorem dispatcher_priority:
  "(\<forall>its fmt. parseAnyGoogleTimeline dp json = Inr (its, fmt) \<longrightarrow> fmt = detectFormat json)
   \<and> (parseAnyGoogleTimeline dp json = Inl TypeError
        \<or> (\<exists>its. parseAnyGoogleTimeline dp json = Inr (its, detectFormat json)))
   \<and> (noToString json \<longrightarrow> (\<exists>its. parseAnyGoogleTimeline dp json = Inr (its, detectFormat json)))
   \<and> (detectFormat json = Unknown \<longrightarrow> parseAnyGoogleTimeline dp json = Inr ([], Unknown))
   \<and> ((\<forall>k \<in> {''timelineObjects'', ''semanticSegments'', ''locations''}. map_of kvs k = map_of kvs' k)
        \<longrightarrow> parseAnyGoogleTimeline dp (JObj kvs) = parseAnyGoogleTimeline dp (JObj kvs'))"
proof -
  have c: "noToString json \<longrightarrow> (\<exists>its. parseAnyGoogleTimeline dp json = Inr (its, detectFormat json))"
    using parseAnyGoogleTimeline_returns [of json dp] parseAny_cases [of dp json] by auto
  have a: "\<forall>its fmt. parseAnyGoogleTimeline dp json = Inr (its, fmt) \<longrightarrow> fmt = detectFormat json"
    using parseAny_format [of dp json] by blast
  have d: "detectFormat json = Unknown \<longrightarrow> parseAnyGoogleTimeline dp json = Inr ([], Unknown)"
    using parseAny_unknown [of json dp] by blast
  have e: "(\<forall>k \<in> {''timelineObjects'', ''semanticSegments'', ''locations''}. map_of kvs k = map_of kvs' k)
        \<longrightarrow> parseAnyGoogleTimeline dp (JObj kvs) = parseAnyGoogleTimeline dp (JObj kvs')"
    using parseAny_fields [of kvs kvs' dp] by blast
  show ?thesis
    using a parseAny_cases [of dp json] c d e by (intro conjI)
qed

theorem dispatcher_priority_witness:
  "noToString locationsDoc
   \<and> parseAnyGoogleTimeline (\<lambda>s. None) locationsDoc =
       Inr ([\<lparr>kind = rawpoint, start = Date 1000, endTime = None,
               point = Some \<lparr>lat = 35.1234567, lng = 139.1234567\<rparr>, path = [],
               distanceMeters = None\<rparr>], RecordsLocations)
   \<and> detectFormat locationsDoc = RecordsLocations
   \<and> parseAnyGoogleTimeline (\<lambda>s. None) (JObj [(''locations'', JNum (Fin 1))]) = Inr ([], Unknown)"
proof -
  have n: "noToString locationsDoc" by (simp add: locationsDoc_def)
  have u: "detectFormat (JObj [(''locations'', JNum (Fin 1))]) = Unknown"
    by (simp add: detectFormat_def)
  have f: "detectFormat locationsDoc = RecordsLocations"
    using locationsDoc_parses [of "\<lambda>s. None"] dispatcher_priority [of "\<lambda>s. None" locationsDoc]
    by simp
  have g: "parseAnyGoogleTimeline (\<lambda>s. None) (JObj [(''locations'', JNum (Fin 1))]) = Inr ([], Unknown)"
    using u dispatcher_priority [of "\<lambda>s. None" "JObj [(''locations'', JNum (Fin 1))]"] by simp
  show ?thesis
    using n f g locationsDoc_parses [of "\<lambda>s. None"] dispatcher_priority [of "\<lambda>s. None" locationsDoc]
    by simp
qed

text \<open>
  C2 (corrected). The claim has no decode failure of one record abort the whole parse.
  The parsers convert fields with \<^verbatim>\<open>Number\<close> and \<^verbatim>\<open>String\<close> outside any
  \<^verbatim>\<open>try\<close>: a record whose latitude is an object with an own \<^verbatim>\<open>toString\<close> raises
  TypeError, and the Items of the records before it are lost with it.
\<close>

theorem one_record_aborts_counterexample:
  "parseRecordsLocations (\<lambda>s. None) [goodRecord] = Inr [goodItem]
   \<and> parseRecordsLocations (\<lambda>s. None) [goodRecord, raisingRecord] = Inl TypeError"
  by (simp add: parseRecordsLocations_def goodRecord_parses raisingRecord_raises)

text \<open>
  C2 as amended. Every Item a parser returns has a valid start. The parse of an array
  returns whenever no object in it has an own \<^verbatim>\<open>toString\<close>. A record whose start is
  not resolved is dropped alone, the result being that of the array without it: in the
  legacy format a record that raises nothing and whose segment and visit, where it has
  them, have no start; in the semantic format a record whose \<^verbatim>\<open>startTime\<close> is not a
  string of a valid date; in the raw format a record with no time.
\<close>

theorem parsers_valid_starts:
  "(\<forall>its. parseTimelineObjects dp xs = Inr its \<longrightarrow> (\<forall>it \<in> set its. validDate (Some (start it))))
   \<and> (\<forall>its. parseSemanticSegments dp xs = Inr its \<longrightarrow> (\<forall>it \<in> set its. validDate (Some (start it))))
   \<and> (\<forall>its. parseRecordsLocations dp xs = Inr its \<longrightarrow> (\<forall>it \<in> set its. validDate (Some (start it))))
   \<and> ((\<forall>x \<in> set xs. noToString x) \<longrightarrow>
         (\<exists>its. parseTimelineObjects dp xs = Inr its)
         \<and> (\<exists>its. parseSemanticSegments dp xs = Inr its)
         \<and> (\<exists>its. parseRecordsLocations dp xs = Inr its))
   \<and> (noToString x
        \<and> (truthy (get x ''activitySegment'') \<longrightarrow> durationStart dp (the (get x ''activitySegment'')) = None)
        \<and> (truthy (get x ''placeVisit'') \<longrightarrow> durationStart dp (the (get x ''placeVisit'')) = None)
        \<longrightarrow> parseTimelineObjects dp (ys @ x # zs) = parseTimelineObjects dp (ys @ zs))
   \<and> (\<not> validDate (dateOfField dp (getOpt (Some x) ''startTime''))
        \<longrightarrow> parseSemanticSegments dp (ys @ x # zs) = parseSemanticSegments dp (ys @ zs))
   \<and> (recordTime dp x = None
        \<longrightarrow> parseRecordsLocations dp (ys @ x # zs) = parseRecordsLocations dp (ys @ zs))"
proof -
  have a: "\<forall>its. parseTimelineObjects dp xs = Inr its \<longrightarrow> (\<forall>it \<in> set its. validDate (Some (start it)))"
    using forEach_all [of "timelineObject dp" xs _ "\<lambda>it. validDate (Some (start it))"] timelineObject_starts
    unfolding parseTimelineObjects_def by blast
  have b: "\<forall>its. parseSemanticSegments dp xs = Inr its \<longrightarrow> (\<forall>it \<in> set its. validDate (Some (start it)))"
    using forEach_all [of "semanticSegment dp" xs _ "\<lambda>it. validDate (Some (start it))"] semanticSegment_starts
    unfolding parseSemanticSegments_def by blast
  have c: "\<forall>its. parseRecordsLocations dp xs = Inr its \<longrightarrow> (\<forall>it \<in> set its. validDate (Some (start it)))"
    using forEach_all [of "recordsLocation dp" xs _ "\<lambda>it. validDate (Some (start it))"] recordsLocation_starts
    unfolding parseRecordsLocations_def by blast
  have d: "(\<forall>x \<in> set xs. noToString x) \<longrightarrow>
         (\<exists>its. parseTimelineObjects dp xs = Inr its)
         \<and> (\<exists>its. parseSemanticSegments dp xs = Inr its)
         \<and> (\<exists>its. parseRecordsLocations dp xs = Inr its)"
    using forEach_returns [of xs "timelineObject dp"] forEach_returns [of xs "semanticSegment dp"]
      forEach_returns [of xs "recordsLocation dp"]
      timelineObject_returns [of _ dp] semanticSegment_returns [of _ dp] recordsLocation_returns [of _ dp]
    unfolding parseTimelineObjects_def parseSemanticSegments_def parseRecordsLocations_def by blast
  have e: "noToString x
        \<and> (truthy (get x ''activitySegment'') \<longrightarrow> durationStart dp (the (get x ''activitySegment'')) = None)
        \<and> (truthy (get x ''placeVisit'') \<longrightarrow> durationStart dp (the (get x ''placeVisit'')) = None)
        \<longrightarrow> parseTimelineObjects dp (ys @ x # zs) = parseTimelineObjects dp (ys @ zs)"
    using timelineObject_drops [of x dp] forEach_drop [of "timelineObject dp" x ys zs]
    unfolding parseTimelineObjects_def by blast
  have f: "\<not> validDate (dateOfField dp (getOpt (Some x) ''startTime''))
        \<longrightarrow> parseSemanticSegments dp (ys @ x # zs) = parseSemanticSegments dp (ys @ zs)"
    using semanticSegment_drops [of dp x] forEach_drop [of "semanticSegment dp" x ys zs]
    unfolding parseSemanticSegments_def by blast
  have g: "recordTime dp x = None
        \<longrightarrow> parseRecordsLocations dp (ys @ x # zs) = parseRecordsLocations dp (ys @ zs)"
    using recordsLocation_drops [of dp x] forEach_drop [of "recordsLocation dp" x ys zs]
    unfolding parseRecordsLocations_def by blast
  show ?thesis using a b c d e f g by (intro conjI)
qed

theorem parsers_valid_starts_witness:
  "recordTime (\<lambda>s. None) untimedRecord = None
   \<and> parseRecordsLocations (\<lambda>s. None) [untimedRecord, goodRecord] = Inr [goodItem]
   \<and> validDate (Some (start goodItem))"
proof -
  have p: "parseRecordsLocations (\<lambda>s. None) [goodRecord] = Inr [goodItem]"
    by (simp add: parseRecordsLocations_def goodRecord_parses)
  have t: "parseRecordsLocations (\<lambda>s. None) ([] @ untimedRecord # [goodRecord])
      = parseRecordsLocations (\<lambda>s. None) ([] @ [goodRecord])"
    using untimedRecord_time [of "\<lambda>s. None"]
      parsers_valid_starts [of "\<lambda>s. None" "[goodRecord]" untimedRecord "[]" "[goodRecord]"]
    by blast
  have v: "validDate (Some (start goodItem))"
    using p parsers_valid_starts [of "\<lambda>s. None" "[goodRecord]" untimedRecord "[]" "[goodRecord]"]
    by simp
  show ?thesis
    using p t v untimedRecord_time [of "\<lambda>s. None"]
      parsers_valid_starts [of "\<lambda>s. None" "[goodRecord]" untimedRecord "[]" "[goodRecord]"]
    by simp
qed

text \<open>
  C8 (corrected). The claim has the activity branch make a path of two points from the
  start and end coordinates whenever the timeline path gives fewer than 2 points. The
  branch tests \<^verbatim>\<open>path.length === 0\<close>: a timeline path of one point stays a path of
  one point, though the start and the end both decode.
\<close>

theorem one_point_path_counterexample:
  "parseLatLngString (Some (JStr ''35.0,139.0'')) = Some \<lparr>lat = 35, lng = 139\<rparr>
   \<and> parseLatLngString (Some (JStr ''35.1,139.1'')) = Some \<lparr>lat = 35.1, lng = 139.1\<rparr>
   \<and> parseSemanticSegments sampleDateParse [onePointSegment] =
       Inr [\<lparr>kind = activity, start = Date 1682935200000, endTime = None, point = None,
             path = [\<lparr>lat = 35.05, lng = 139.05\<rparr>], distanceMeters = None\<rparr>]"
  by (simp add: latlng_start latlng_end parseSemanticSegments_def onePointSegment_parses)

text \<open>
  C8 as amended. In the activity branch of the semantic parser the path of the Item is
  the list of the points of \<^verbatim>\<open>timelinePath\<close> that decode when that list is not empty;
  when it is empty the path is made of the start point and the end point that decode
  (none, one or both): the two of them when both decode. A timeline path of one point
  gives a path of one point.
\<close>

theorem activity_path_fallback:
  "semanticSegment dp seg = Inr its \<and> it \<in> set its \<and> kind it = activity \<longrightarrow>
     (let tp = (case get seg ''timelinePath'' of Some (JArr ps) \<Rightarrow> timelinePoints ps | _ \<Rightarrow> []);
          s = parseLatLngString (getOpt (getOpt (get seg ''activity'') ''start'') ''latLng'');
          e = parseLatLngString (getOpt (getOpt (get seg ''activity'') ''end'') ''latLng'')
      in (tp \<noteq> [] \<longrightarrow> path it = tp)
         \<and> (tp = [] \<longrightarrow> path it = pushed s @ pushed e)
         \<and> (\<forall>a b. tp = [] \<and> s = Some a \<and> e = Some b \<longrightarrow> path it = [a, b])
         \<and> (length tp = 1 \<longrightarrow> length (path it) = 1))"
proof
  assume h: "semanticSegment dp seg = Inr its \<and> it \<in> set its \<and> kind it = activity"
  then have p: "path it = activityPath seg" using semanticSegment_activity_path by blast
  show "(let tp = (case get seg ''timelinePath'' of Some (JArr ps) \<Rightarrow> timelinePoints ps | _ \<Rightarrow> []);
          s = parseLatLngString (getOpt (getOpt (get seg ''activity'') ''start'') ''latLng'');
          e = parseLatLngString (getOpt (getOpt (get seg ''activity'') ''end'') ''latLng'')
      in (tp \<noteq> [] \<longrightarrow> path it = tp)
         \<and> (tp = [] \<longrightarrow> path it = pushed s @ pushed e)
         \<and> (\<forall>a b. tp = [] \<and> s = Some a \<and> e = Some b \<longrightarrow> path it = [a, b])
         \<and> (length tp = 1 \<longrightarrow> length (path it) = 1))"
    unfolding p activityPath_def Let_def by auto
qed

theorem activity_path_fallback_witness:
  "semanticSegment sampleDateParse noPathSegment =
     Inr [\<lparr>kind = activity, start = Date 1682935200000, endTime = None, point = None,
           path = activityPath noPathSegment, distanceMeters = None\<rparr>]
   \<and> activityPath noPathSegment = [\<lparr>lat = 35, lng = 139\<rparr>, \<lparr>lat = 35.1, lng = 139.1\<rparr>]"
proof -
  define it where "it = \<lparr>kind = activity, start = Date 1682935200000, endTime = None, point = None,
           path = activityPath noPathSegment, distanceMeters = None\<rparr>"
  have a: "semanticSegment sampleDateParse noPathSegment = Inr [it] \<and> it \<in> set [it] \<and> kind it = activity"
    by (simp add: noPathSegment_parses it_def)
  have f: "get noPathSegment ''timelinePath'' = None"
    "parseLatLngString (getOpt (getOpt (get noPathSegment ''activity'') ''start'') ''latLng'') = Some \<lparr>lat = 35, lng = 139\<rparr>"
    "parseLatLngString (getOpt (getOpt (get noPathSegment ''activity'') ''end'') ''latLng'') = Some \<lparr>lat = 35.1, lng = 139.1\<rparr>"
    by (simp_all add: noPathSegment_def latlng_start latlng_end)
  have i: "path it = activityPath noPathSegment" by (simp add: it_def)
  show ?thesis
    using a f i activity_path_fallback [of sampleDateParse noPathSegment "[it]" it]
    by (simp add: Let_def noPathSegment_parses)
qed

text \<open>
  C5 (corrected). The claim has a load of JSON whose top-level value is not an object
  end as a parse failure that leaves the loaded state untouched. Only the exception of
  \<^verbatim>\<open>JSON.parse\<close> is caught: the text \<^verbatim>\<open>[]\<close> parses, the dispatcher finds no format,
  and the load shows \<^verbatim>\<open>No supported data found\<close> and replaces the loaded Items and
  days by none.
\<close>

theorem non_object_json_counterexample:
  "onFileSelected 0 (\<lambda>s. None) (Inr locationsDoc) initialState = (Loaded 1 1, loadedState)
   \<and> onFileSelected 0 (\<lambda>s. None) (Inr (JArr [])) loadedState = (NoSupportedData, emptiedState)
   \<and> items loadedState = [goodItem] \<and> items emptiedState = []"
  using load_nothing [of "\<lambda>s. None" "JArr []" Unknown 0 loadedState] parseAny_not_object [of "JArr []" "\<lambda>s. None"]
  by (simp add: load_locationsDoc) (simp add: loadedState_def emptiedState_def)

text \<open>
  C5 as amended. When \<^verbatim>\<open>JSON.parse\<close> throws, the load shows the parse error with the
  text of the exception and leaves the state as it was. When the text parses to a
  value that is not an object (null, a boolean, a number, a string, an array), the load
  shows \<^verbatim>\<open>No supported data found\<close> and replaces the state: no Items, the format
  \<open>Unknown\<close>, no days, no selected day.
\<close>

theorem malformed_input:
  "onFileSelected tz dp (Inl msg) st = (JsonParseError msg, st)
   \<and> ((\<forall>kvs. json \<noteq> JObj kvs) \<longrightarrow>
        onFileSelected tz dp (Inr json) st =
          (NoSupportedData,
           st\<lparr>items := [], detectedFormat := Unknown, dayKeySet := [], sortedDays := [],
              monthAnchor := None, selectedDay := None\<rparr>))"
  using load_nothing [of dp json Unknown tz st] parseAny_not_object [of json dp]
  by (simp add: onFileSelected_def)

theorem malformed_input_witness:
  "onFileSelected 0 (\<lambda>s. None) (Inl ''SyntaxError'') loadedState = (JsonParseError ''SyntaxError'', loadedState)
   \<and> onFileSelected 0 (\<lambda>s. None) (Inr (JNum (Fin 42))) loadedState = (NoSupportedData, emptiedState)"
  using malformed_input [of 0 "\<lambda>s. None" "''SyntaxError''" loadedState "JNum (Fin 42)"]
  by (simp add: loadedState_def emptiedState_def)

text \<open>
  C10 (corrected). The claim has every load whose text parses as JSON replace the
  previous state. A document whose parse raises TypeError (\<open>raisingDoc\<close>) is valid JSON,
  and the exception leaves \<^verbatim>\<open>onFileSelected\<close> before any field is assigned: the state
  of the earlier load survives.
\<close>

theorem raising_load_counterexample:
  "onFileSelected 0 (\<lambda>s. None) (Inr locationsDoc) initialState = (Loaded 1 1, loadedState)
   \<and> onFileSelected 0 (\<lambda>s. None) (Inr raisingDoc) loadedState = (Uncaught TypeError, loadedState)
   \<and> items loadedState = [goodItem]"
  by (simp add: load_locationsDoc load_raising) (simp add: loadedState_def)

text \<open>
  C10 as amended. When the parse of the document raises, the state is left as it was.
  When the parse returns, as it does for every document in which no object has an own
  \<^verbatim>\<open>toString\<close>, the outcome and the new state do not depend on the previous state: the
  Items are the parsed Items with a valid start, sorted by start, the format is the
  detected one, and the key set, the day sequence, the month anchor and the selected
  day are those \<^verbatim>\<open>rebuildDays\<close> makes of these Items; with no Items there is no day
  and no selected day.
\<close>

theorem load_replaces_state:
  "(\<forall>e. parseAnyGoogleTimeline dp json = Inl e \<longrightarrow>
        onFileSelected tz dp (Inr json) st = (Uncaught e, st))
   \<and> (\<forall>its fmt. parseAnyGoogleTimeline dp json = Inr (its, fmt) \<longrightarrow>
        onFileSelected tz dp (Inr json) st = onFileSelected tz dp (Inr json) st'
        \<and> snd (onFileSelected tz dp (Inr json) st) =
            rebuildDays tz (st'\<lparr>items := sortBy (\<lambda>it. getTime (start it))
                                         (filter (\<lambda>it. validDate (Some (start it))) its),
                                 detectedFormat := fmt\<rparr>)
        \<and> items (snd (onFileSelected tz dp (Inr json) st)) =
            sortBy (\<lambda>it. getTime (start it)) (filter (\<lambda>it. validDate (Some (start it))) its)
        \<and> detectedFormat (snd (onFileSelected tz dp (Inr json) st)) = fmt
        \<and> (items (snd (onFileSelected tz dp (Inr json) st)) = [] \<longrightarrow>
             selectedDay (snd (onFileSelected tz dp (Inr json) st)) = None
             \<and> sortedDays (snd (onFileSelected tz dp (Inr json) st)) = []
             \<and> dayKeySet (snd (onFileSelected tz dp (Inr json) st)) = []
             \<and> monthAnchor (snd (onFileSelected tz dp (Inr json) st)) = None))
   \<and> (noToString json \<longrightarrow> (\<exists>its fmt. parseAnyGoogleTimeline dp json = Inr (its, fmt)))"
proof -
  have a: "\<forall>e. parseAnyGoogleTimeline dp json = Inl e \<longrightarrow>
        onFileSelected tz dp (Inr json) st = (Uncaught e, st)"
    by (simp add: onFileSelected_def)
  have b: "onFileSelected tz dp (Inr json) st = onFileSelected tz dp (Inr json) st'
        \<and> snd (onFileSelected tz dp (Inr json) st) =
            rebuildDays tz (st'\<lparr>items := sortBy (\<lambda>it. getTime (start it))
                                         (filter (\<lambda>it. validDate (Some (start it))) its),
                                 detectedFormat := fmt\<rparr>)
        \<and> items (snd (onFileSelected tz dp (Inr json) st)) =
            sortBy (\<lambda>it. getTime (start it)) (filter (\<lambda>it. validDate (Some (start it))) its)
        \<and> detectedFormat (snd (onFileSelected tz dp (Inr json) st)) = fmt
        \<and> (items (snd (onFileSelected tz dp (Inr json) st)) = [] \<longrightarrow>
             selectedDay (snd (onFileSelected tz dp (Inr json) st)) = None
             \<and> sortedDays (snd (onFileSelected tz dp (Inr json) st)) = []
             \<and> dayKeySet (snd (onFileSelected tz dp (Inr json) st)) = []
             \<and> monthAnchor (snd (onFileSelected tz dp (Inr json) st)) = None)"
    if p: "parseAnyGoogleTimeline dp json = Inr (its, fmt)" for its fmt
  proof -
    have 1: "onFileSelected tz dp (Inr json) st = onFileSelected tz dp (Inr json) st'"
      using load_independent [OF p] by simp
    have 2: "snd (onFileSelected tz dp (Inr json) st) =
            rebuildDays tz (st'\<lparr>items := sortBy (\<lambda>it. getTime (start it))
                                         (filter (\<lambda>it. validDate (Some (start it))) its),
                                 detectedFormat := fmt\<rparr>)"
      unfolding 1 using snd_load [OF p] by simp
    have 3: "items (snd (onFileSelected tz dp (Inr json) st)) =
            sortBy (\<lambda>it. getTime (start it)) (filter (\<lambda>it. validDate (Some (start it))) its)"
      unfolding 2 by (simp add: rebuildDays_items)
    have 4: "detectedFormat (snd (onFileSelected tz dp (Inr json) st)) = fmt"
      unfolding 2 by (simp add: rebuildDays_detectedFormat)
    have 5: "items (snd (onFileSelected tz dp (Inr json) st)) = [] \<longrightarrow>
             selectedDay (snd (onFileSelected tz dp (Inr json) st)) = None
             \<and> sortedDays (snd (onFileSelected tz dp (Inr json) st)) = []
             \<and> dayKeySet (snd (onFileSelected tz dp (Inr json) st)) = []
             \<and> monthAnchor (snd (onFileSelected tz dp (Inr json) st)) = None"
      unfolding 2 by (simp add: rebuildDays_items rebuildDays_empty)
    show ?thesis using 1 2 3 4 5 by (intro conjI)
  qed
  have c: "noToString json \<longrightarrow> (\<exists>its fmt. parseAnyGoogleTimeline dp json = Inr (its, fmt))"
    using parseAnyGoogleTimeline_returns [of json dp] by auto
  show ?thesis using a b c by blast
qed

theorem load_replaces_state_witness:
  "parseAnyGoogleTimeline (\<lambda>s. None) locationsDoc = Inr ([goodItem], RecordsLocations)
   \<and> noToString locationsDoc
   \<and> onFileSelected 0 (\<lambda>s. None) (Inr locationsDoc) loadedState
       = onFileSelected 0 (\<lambda>s. None) (Inr locationsDoc) emptiedState
   \<and> detectedFormat (snd (onFileSelected 0 (\<lambda>s. None) (Inr locationsDoc) loadedState)) = RecordsLocations"
proof -
  have p: "parseAnyGoogleTimeline (\<lambda>s. None) locationsDoc = Inr ([goodItem], RecordsLocations)"
    using locationsDoc_parses [of "\<lambda>s. None"] by (simp add: goodItem_def)
  have n: "noToString locationsDoc" by (simp add: locationsDoc_def)
  show ?thesis
    using p n load_replaces_state [of "\<lambda>s. None" locationsDoc 0 loadedState emptiedState]
    by blast
qed







end
